theory Spec2Isabelle
  imports Complex_Main
begin

section \<open>Python values shared by the modules\<close>

text \<open>
  Each function of the program is a function here under its own name, without the
  leading underscore of a private method. What a method reads from outside (the clock,
  the outcome of a file write, the external libraries) is an argument; what it changes
  (\<open>self\<close>, the log) is returned.
\<close>

text \<open>
  The exceptions the modelled code can raise. Every one of them is a subclass of
  Python's \<open>Exception\<close>, so an \<open>except Exception\<close> handler catches each of them.
\<close>

datatype py_error =
    KeyError
  | IndexError
  | OverflowError
  | ZeroDivisionError
  | ImportError
  | NameError
  | DecodeError
  | ExternalError string

text \<open>
  A Python \<open>dict\<close> keeps its keys in insertion order and holds each key once. It is
  modelled as an association list: assigning to a key that is present replaces the value
  in place, assigning to a new key appends the entry, \<open>del\<close> removes the entry.
\<close>

type_synonym ('k, 'v) dict = "('k \<times> 'v) list"

definition dict_get :: "('k, 'v) dict \<Rightarrow> 'k \<Rightarrow> 'v option" where
  "dict_get d k = map_of d k"

definition dict_contains :: "('k, 'v) dict \<Rightarrow> 'k \<Rightarrow> bool" where
  "dict_contains d k = (k \<in> set (map fst d))"

fun dict_set :: "'k \<Rightarrow> 'v \<Rightarrow> ('k, 'v) dict \<Rightarrow> ('k, 'v) dict" where
  "dict_set k v [] = [(k, v)]"
| "dict_set k v (e # d) = (if fst e = k then (k, v) # d else e # dict_set k v d)"

definition dict_del :: "'k \<Rightarrow> ('k, 'v) dict \<Rightarrow> ('k, 'v) dict" where
  "dict_del k d = filter (\<lambda>e. fst e \<noteq> k) d"

text \<open>\<open>d.get(k, default)\<close>\<close>

definition dict_get_default :: "('k, 'v) dict \<Rightarrow> 'k \<Rightarrow> 'v \<Rightarrow> 'v" where
  "dict_get_default d k dflt = (case dict_get d k of None \<Rightarrow> dflt | Some v \<Rightarrow> v)"

text \<open>\<open>d[k]\<close>, which raises \<open>KeyError\<close> on a missing key.\<close>

definition dict_item :: "('k, 'v) dict \<Rightarrow> 'k \<Rightarrow> py_error + 'v" where
  "dict_item d k = (case dict_get d k of None \<Rightarrow> Inl KeyError | Some v \<Rightarrow> Inr v)"

text \<open>\<open>xs[i]\<close> on a list, which raises \<open>IndexError\<close> out of range.\<close>

definition list_item :: "'a list \<Rightarrow> nat \<Rightarrow> py_error + 'a" where
  "list_item xs i = (if i < length xs then Inr (xs ! i) else Inl IndexError)"

text \<open>Sequencing of calls that may raise: the first exception ends the sequence.\<close>

definition bind_err :: "py_error + 'a \<Rightarrow> ('a \<Rightarrow> py_error + 'b) \<Rightarrow> py_error + 'b" where
  "bind_err r f = (case r of Inl e \<Rightarrow> Inl e | Inr x \<Rightarrow> f x)"

text \<open>\<open>d[k]\<close> on a dictionary whose key \<open>k\<close> holds a value (\<open>Some\<close>) or is absent.\<close>

definition key_item :: "'a option \<Rightarrow> py_error + 'a" where
  "key_item v = (case v of None \<Rightarrow> Inl KeyError | Some x \<Rightarrow> Inr x)"

section \<open>Dates and durations (\<open>datetime\<close>, \<open>timedelta\<close>)\<close>

text \<open>
  A naive \<open>datetime\<close> is the number of microseconds since \<open>datetime.min\<close>
  (0001-01-01T00:00:00); \<open>datetime.max\<close> is the last microsecond of the year 9999, day
  number 3652059. The scheduler stores a date as its ISO-8601 text and reads it back with
  \<open>fromisoformat\<close>; that round trip is the identity on naive datetimes, so the model
  stores the datetime itself.
\<close>

type_synonym datetime = int

definition microseconds_per_day :: int where
  "microseconds_per_day = 86400000000"

definition datetime_max :: datetime where
  "datetime_max = 3652059 * microseconds_per_day - 1"

text \<open>\<open>timedelta(days=n)\<close> raises \<open>OverflowError\<close> beyond 999999999 days.\<close>

definition timedelta_days :: "int \<Rightarrow> py_error + int" where
  "timedelta_days n =
     (if - 999999999 \<le> n \<and> n \<le> 999999999 then Inr (n * microseconds_per_day)
      else Inl OverflowError)"

text \<open>\<open>datetime + timedelta\<close> raises \<open>OverflowError\<close> outside the years 1..9999.\<close>

definition datetime_add :: "datetime \<Rightarrow> int \<Rightarrow> py_error + datetime" where
  "datetime_add t delta =
     (if 0 \<le> t + delta \<and> t + delta \<le> datetime_max then Inr (t + delta)
      else Inl OverflowError)"

section \<open>The follow-up scheduler (\<open>agents/scheduler.py\<close>)\<close>

text \<open>
  A follow-up record as \<open>schedule_follow_up\<close> builds it. The key \<open>completed_at\<close> is
  absent until \<open>mark_completed\<close> adds it. The Python key \<open>from\<close> is the field
  \<open>from_field\<close>.
\<close>

record follow_up =
  email_id :: string
  subject :: string
  from_field :: string
  follow_up_date :: datetime
  created_at :: datetime
  status :: string
  completed_at :: "datetime option"

text \<open>
  The file at \<open>storage_path\<close>. \<open>open(path, "w")\<close> truncates the file, so a
  \<open>json.dump\<close> that raises leaves it garbled; an \<open>open\<close> that raises leaves it
  as it was.
\<close>

datatype storage_file = NoFile | Content "(string, follow_up) dict" | Garbled

datatype write_outcome = WriteOk | OpenRaises | DumpRaises

text \<open>The messages given to the logger, with the values they interpolate.\<close>

datatype log_event =
    ErrorSaving
  | Scheduled string datetime
  | FoundDue nat
  | MarkedCompleted string
  | Cancelled string
  | ErrorSearching py_error
  | ErrorExtractingSender py_error
  | Drafted string
  | ErrorDrafting py_error
  | Refined string
  | ErrorRefining py_error
  | Summarized string
  | ErrorSummarizing py_error

record scheduler =
  follow_ups :: "(string, follow_up) dict"
  storage :: storage_file
  logged :: "log_event list"

record settings =
  follow_up_days :: int

record schedule_result =
  result_follow_up_date :: datetime
  scheduled :: bool

text \<open>
  \<open>_save_follow_ups\<close>: the whole dictionary is written; an exception of the write is
  logged and not raised again.
\<close>

definition save_follow_ups :: "write_outcome \<Rightarrow> scheduler \<Rightarrow> scheduler" where
  "save_follow_ups io s =
     (case io of
        WriteOk \<Rightarrow> s\<lparr>storage := Content (follow_ups s)\<rparr>
      | OpenRaises \<Rightarrow> s\<lparr>logged := logged s @ [ErrorSaving]\<rparr>
      | DumpRaises \<Rightarrow> s\<lparr>storage := Garbled, logged := logged s @ [ErrorSaving]\<rparr>)"

text \<open>
  \<open>schedule_follow_up\<close>. The clock is read twice: \<open>now1\<close> for the due date and
  \<open>now2\<close> for \<open>created_at\<close>. An exception of the date arithmetic leaves the
  scheduler as it was, since nothing has been assigned yet.
\<close>

definition schedule_follow_up ::
  "settings \<Rightarrow> datetime \<Rightarrow> datetime \<Rightarrow> write_outcome \<Rightarrow> string \<Rightarrow> (string, string) dict \<Rightarrow>
   int option \<Rightarrow> scheduler \<Rightarrow> py_error + (schedule_result \<times> scheduler)" where
  "schedule_follow_up cfg now1 now2 io eid email_data days_until s =
     (let days = (case days_until of None \<Rightarrow> follow_up_days cfg | Some d \<Rightarrow> d) in
      case timedelta_days days of
        Inl e \<Rightarrow> Inl e
      | Inr delta \<Rightarrow>
         (case datetime_add now1 delta of
            Inl e \<Rightarrow> Inl e
          | Inr due \<Rightarrow>
             (let r = \<lparr>email_id = eid,
                        subject = dict_get_default email_data ''subject'' '''',
                        from_field = dict_get_default email_data ''from'' '''',
                        follow_up_date = due,
                        created_at = now2,
                        status = ''pending'',
                        completed_at = None\<rparr>;
                  s1 = s\<lparr>follow_ups := dict_set eid r (follow_ups s)\<rparr>;
                  s2 = save_follow_ups io s1;
                  s3 = s2\<lparr>logged := logged s2 @ [Scheduled eid due]\<rparr>
              in Inr (\<lparr>result_follow_up_date = due, scheduled = True\<rparr>, s3))))"

text \<open>The loop of \<open>get_due_follow_ups\<close> over \<open>self.follow_ups.items()\<close>.\<close>

fun due_loop :: "datetime \<Rightarrow> (string \<times> follow_up) list \<Rightarrow> follow_up list \<Rightarrow> follow_up list" where
  "due_loop now [] due_follow_ups = due_follow_ups"
| "due_loop now ((eid, fu) # items) due_follow_ups =
     due_loop now items
       (if status fu = ''pending''
        then (if follow_up_date fu \<le> now then due_follow_ups @ [fu] else due_follow_ups)
        else due_follow_ups)"

definition get_due_follow_ups :: "datetime \<Rightarrow> scheduler \<Rightarrow> follow_up list \<times> scheduler" where
  "get_due_follow_ups now s =
     (let due_follow_ups = due_loop now (follow_ups s) []
      in (due_follow_ups, s\<lparr>logged := logged s @ [FoundDue (length due_follow_ups)]\<rparr>))"

definition mark_completed :: "datetime \<Rightarrow> write_outcome \<Rightarrow> string \<Rightarrow> scheduler \<Rightarrow> scheduler" where
  "mark_completed now io eid s =
     (case dict_get (follow_ups s) eid of
        None \<Rightarrow> s
      | Some fu \<Rightarrow>
         (let s1 = s\<lparr>follow_ups :=
                       dict_set eid (fu\<lparr>status := ''completed'', completed_at := Some now\<rparr>)
                         (follow_ups s)\<rparr>;
              s2 = save_follow_ups io s1
          in s2\<lparr>logged := logged s2 @ [MarkedCompleted eid]\<rparr>))"

definition cancel_follow_up :: "write_outcome \<Rightarrow> string \<Rightarrow> scheduler \<Rightarrow> scheduler" where
  "cancel_follow_up io eid s =
     (if dict_contains (follow_ups s) eid
      then (let s1 = s\<lparr>follow_ups := dict_del eid (follow_ups s)\<rparr>;
                s2 = save_follow_ups io s1
            in s2\<lparr>logged := logged s2 @ [Cancelled eid]\<rparr>)
      else s)"

text \<open>\<open>a / b\<close> on numbers raises \<open>ZeroDivisionError\<close> when \<open>b\<close> is zero.\<close>

definition py_truediv :: "real \<Rightarrow> real \<Rightarrow> py_error + real" where
  "py_truediv a b = (if b = 0 then Inl ZeroDivisionError else Inr (a / b))"

record follow_up_stats =
  total :: nat
  pending :: nat
  completed :: nat
  completion_rate :: real

text \<open>\<open>sum(1 for f in self.follow_ups.values() if f["status"] == st)\<close>\<close>

fun count_status :: "string \<Rightarrow> (string \<times> follow_up) list \<Rightarrow> nat" where
  "count_status st [] = 0"
| "count_status st ((eid, f) # items) =
     (if status f = st then 1 + count_status st items else count_status st items)"

definition get_follow_up_stats :: "scheduler \<Rightarrow> py_error + follow_up_stats" where
  "get_follow_up_stats s =
     (let total = length (follow_ups s);
          pending = count_status ''pending'' (follow_ups s);
          completed = count_status ''completed'' (follow_ups s)
      in case (if total > 0
               then (case py_truediv (real completed) (real total) of
                       Inl e \<Rightarrow> Inl e
                     | Inr q \<Rightarrow> Inr (q * 100))
               else Inr 0) of
           Inl e \<Rightarrow> Inl e
         | Inr rate \<Rightarrow>
             Inr \<lparr>total = total, pending = pending, completed = completed,
                  completion_rate = rate\<rparr>)"

text \<open>
  The states a running scheduler holds: a dictionary has each key once, and every record
  sits under its own \<open>email_id\<close>, as \<open>schedule_follow_up\<close> stores it.
\<close>

definition store_ok :: "(string, follow_up) dict \<Rightarrow> bool" where
  "store_ok d = (distinct (map fst d) \<and> list_all (\<lambda>e. email_id (snd e) = fst e) d)"

text \<open>The test of \<open>get_due_follow_ups\<close> on one record.\<close>

definition is_due :: "datetime \<Rightarrow> follow_up \<Rightarrow> bool" where
  "is_due now fu = (status fu = ''pending'' \<and> follow_up_date fu \<le> now)"

section \<open>Strings and JSON values\<close>

text \<open>What \<open>json.loads\<close> returns, and the dictionaries the agents return.\<close>

datatype json =
    JNull
  | JBool bool
  | JNum real
  | JStr string
  | JList "json list"
  | JObj "(string \<times> json) list"

text \<open>
  The characters \<open>str.strip()\<close> and \<open>str.split()\<close> treat as whitespace, among the
  ASCII characters.
\<close>

definition py_whitespace :: "char list" where
  "py_whitespace = [CHR 0x09, CHR 0x0A, CHR 0x0B, CHR 0x0C, CHR 0x0D, CHR 0x1C, CHR 0x1D,
     CHR 0x1E, CHR 0x1F, CHR '' '']"

text \<open>\<open>s.strip(chars)\<close>\<close>

definition py_strip :: "char list \<Rightarrow> string \<Rightarrow> string" where
  "py_strip chars s =
     rev (dropWhile (\<lambda>c. c \<in> set chars) (rev (dropWhile (\<lambda>c. c \<in> set chars) s)))"

text \<open>\<open>s.split(sep)\<close> for a separator of one character.\<close>

fun split_char :: "char \<Rightarrow> string \<Rightarrow> string list" where
  "split_char sep [] = [[]]"
| "split_char sep (c # cs) =
     (if c = sep then [] # split_char sep cs
      else (case split_char sep cs of
              [] \<Rightarrow> [[c]]
            | w # ws \<Rightarrow> (c # w) # ws))"

text \<open>\<open>s.split()\<close>: the words between runs of whitespace; \<open>word\<close> is the word being read.\<close>

fun split_whitespace :: "string \<Rightarrow> string \<Rightarrow> string list" where
  "split_whitespace [] word = (if word = [] then [] else [word])"
| "split_whitespace (c # cs) word =
     (if c \<in> set py_whitespace
      then (if word = [] then split_whitespace cs [] else word # split_whitespace cs [])
      else split_whitespace cs (word @ [c]))"

text \<open>\<open>sep.join(xs)\<close>\<close>

fun py_join :: "string \<Rightarrow> string list \<Rightarrow> string" where
  "py_join sep [] = []"
| "py_join sep [x] = x"
| "py_join sep (x # y # ys) = x @ sep @ py_join sep (y # ys)"

text \<open>\<open>str(n)\<close> for a natural number.\<close>

fun str_nat :: "nat \<Rightarrow> string" where
  "str_nat n =
     (if n < 10 then [''0123456789'' ! n]
      else str_nat (n div 10) @ [''0123456789'' ! (n mod 10)])"

declare str_nat.simps [simp del]

section \<open>Body extraction of the mail client (\<open>core/gmail_client.py\<close>)\<close>

text \<open>
  A message payload of the mail provider, and each of its parts: the keys \<open>mimeType\<close>,
  \<open>body\<close> and \<open>parts\<close>, each of which may be absent (\<open>None\<close>). A body is a
  dictionary that holds the encoded content under \<open>data\<close> when it has any.
\<close>

datatype message_part =
  MessagePart (mimeType: "string option") (body: "(string, string) dict option")
    (parts: "message_part list option")

text \<open>The loop of \<open>_get_email_body\<close> over \<open>payload["parts"]\<close>; \<open>break\<close> ends it with the decoded text.\<close>

fun parts_loop :: "(string \<Rightarrow> py_error + string) \<Rightarrow> message_part list \<Rightarrow> py_error + string" where
  "parts_loop decode [] = Inr ''''"
| "parts_loop decode (part # rest) =
     (case mimeType part of
        None \<Rightarrow> Inl KeyError
      | Some mt \<Rightarrow>
          if mt = ''text/plain''
          then (case body part of
                  None \<Rightarrow> Inl KeyError
                | Some b \<Rightarrow>
                    (case dict_get b ''data'' of
                       Some d \<Rightarrow> decode d
                     | None \<Rightarrow> parts_loop decode rest))
          else parts_loop decode rest)"

definition get_email_body :: "(string \<Rightarrow> py_error + string) \<Rightarrow> message_part \<Rightarrow> py_error + string" where
  "get_email_body decode payload =
     (case parts payload of
        Some ps \<Rightarrow> parts_loop decode ps
      | None \<Rightarrow>
          (case body payload of
             None \<Rightarrow> Inr ''''
           | Some b \<Rightarrow>
               (case dict_get b ''data'' of
                  None \<Rightarrow> Inr ''''
                | Some d \<Rightarrow> decode d)))"

text \<open>
  A part the loop passes over: a part of another type, or a \<open>text/plain\<close> part whose
  body holds no \<open>data\<close>.
\<close>

definition passed_over :: "message_part \<Rightarrow> bool" where
  "passed_over q =
     (case mimeType q of
        None \<Rightarrow> False
      | Some mt \<Rightarrow>
          if mt = ''text/plain''
          then (case body q of None \<Rightarrow> False | Some b \<Rightarrow> dict_get b ''data'' = None)
          else True)"

text \<open>
  \<open>base64.urlsafe_b64decode(data).decode("utf-8")\<close> is library code and a parameter
  \<open>decode\<close> of the model. The instance below is the decoder on canonical input: digits
  of the URL-safe alphabet, padded with \<open>=\<close> to a multiple of four, encoding ASCII
  text. It is used on such input only, in the examples; on other input (text beyond
  ASCII, the digits \<open>+\<close> and \<open>/\<close>, embedded whitespace) the library may decode where
  this instance gives \<open>DecodeError\<close>.
\<close>

definition urlsafe_alphabet :: string where
  "urlsafe_alphabet = ''ABCDEFGHIJKLMNOPQRSTUVWXYZabcdefghijklmnopqrstuvwxyz0123456789-_''"

fun position :: "'a \<Rightarrow> 'a list \<Rightarrow> nat option" where
  "position c [] = None"
| "position c (x # xs) = (if x = c then Some 0 else map_option Suc (position c xs))"

fun sextets_to_bytes :: "nat list \<Rightarrow> nat list option" where
  "sextets_to_bytes [] = Some []"
| "sextets_to_bytes [a] = None"
| "sextets_to_bytes [a, b] = Some [(a * 64 + b) div 16]"
| "sextets_to_bytes [a, b, c] =
     Some [(a * 4096 + b * 64 + c) div 1024, (a * 4096 + b * 64 + c) div 4 mod 256]"
| "sextets_to_bytes (a # b # c # d # rest) =
     map_option
       (\<lambda>bytes. [(a * 262144 + b * 4096 + c * 64 + d) div 65536,
                  (a * 262144 + b * 4096 + c * 64 + d) div 256 mod 256,
                  (a * 262144 + b * 4096 + c * 64 + d) mod 256] @ bytes)
       (sextets_to_bytes rest)"

definition urlsafe_b64decode_ascii :: "string \<Rightarrow> py_error + string" where
  "urlsafe_b64decode_ascii s =
     (let digits = takeWhile (\<lambda>c. c \<noteq> CHR ''='') s;
          padding = dropWhile (\<lambda>c. c \<noteq> CHR ''='') s
      in if (padding = [] \<or> padding = ''='' \<or> padding = ''=='') \<and> length s mod 4 = 0
         then (case those (map (\<lambda>c. position c urlsafe_alphabet) digits) of
                 None \<Rightarrow> Inl DecodeError
               | Some sextets \<Rightarrow>
                   (case sextets_to_bytes sextets of
                      None \<Rightarrow> Inl DecodeError
                    | Some bytes \<Rightarrow>
                        if list_all (\<lambda>b. b < 128) bytes then Inr (map char_of bytes)
                        else Inl DecodeError))
         else Inl DecodeError)"

section \<open>The vector store (\<open>core/vector_store.py\<close>)\<close>

text \<open>
  What \<open>collection.query\<close> returns: under each key one list per query embedding, or
  nothing (\<open>None\<close>). The encoder and the collection are external libraries; they are
  the two fields of \<open>vector_index\<close>, and each call may raise.
\<close>

record query_result =
  documents :: "string list list option"
  distances :: "real list list option"
  metadatas :: "(string, string) dict list list option"

record 'v vector_index =
  encode :: "string \<Rightarrow> py_error + 'v"
  query :: "'v \<Rightarrow> int \<Rightarrow> py_error + query_result"

record hit =
  response :: string
  distance :: "real option"
  metadata :: "(string, string) dict"

text \<open>
  \<open>results["distances"][0][i] if results.get("distances") else None\<close>, and the same
  for the metadata with the default \<open>{}\<close>.
\<close>

definition hit_distance :: "query_result \<Rightarrow> nat \<Rightarrow> py_error + real option" where
  "hit_distance results i =
     (case distances results of
        Some (ds # other) \<Rightarrow> (case list_item ds i of Inl e \<Rightarrow> Inl e | Inr d \<Rightarrow> Inr (Some d))
      | _ \<Rightarrow> Inr None)"

definition hit_metadata :: "query_result \<Rightarrow> nat \<Rightarrow> py_error + (string, string) dict" where
  "hit_metadata results i =
     (case metadatas results of
        Some (mds # other) \<Rightarrow> list_item mds i
      | _ \<Rightarrow> Inr [])"

text \<open>The body of the \<open>try\<close> block of \<open>search_similar_responses\<close>, and its loop.\<close>

fun hits_loop :: "query_result \<Rightarrow> nat \<Rightarrow> string list \<Rightarrow> hit list \<Rightarrow> py_error + hit list" where
  "hits_loop results i [] similar_responses = Inr similar_responses"
| "hits_loop results i (doc # docs) similar_responses =
     (case hit_distance results i of
        Inl e \<Rightarrow> Inl e
      | Inr d \<Rightarrow>
          (case hit_metadata results i of
             Inl e \<Rightarrow> Inl e
           | Inr md \<Rightarrow>
               hits_loop results (Suc i) docs
                 (similar_responses @ [\<lparr>response = doc, distance = d, metadata = md\<rparr>])))"

definition search_try :: "'v vector_index \<Rightarrow> string \<Rightarrow> int \<Rightarrow> py_error + hit list" where
  "search_try vs query_text n_results =
     (case encode vs query_text of
        Inl e \<Rightarrow> Inl e
      | Inr query_embedding \<Rightarrow>
          (case query vs query_embedding n_results of
             Inl e \<Rightarrow> Inl e
           | Inr results \<Rightarrow>
               (case documents results of
                  Some (docs # other) \<Rightarrow> if docs \<noteq> [] then hits_loop results 0 docs [] else Inr []
                | _ \<Rightarrow> Inr [])))"

definition search_similar_responses ::
  "'v vector_index \<Rightarrow> string \<Rightarrow> int \<Rightarrow> hit list \<times> log_event list" where
  "search_similar_responses vs query_text n_results =
     (case search_try vs query_text n_results of
        Inr similar_responses \<Rightarrow> (similar_responses, [])
      | Inl e \<Rightarrow> ([], [ErrorSearching e]))"

text \<open>
  The contract of the external index, as the specification gives it for
  \<open>query(vector, k)\<close>: a query that returns gives, for the one embedding, the documents,
  distances and metadata of the same neighbours, at most \<open>k\<close> of them and at most as
  many as the collection holds (\<open>count\<close>), ranked by ascending distance.
\<close>

definition index_contract :: "'v vector_index \<Rightarrow> nat \<Rightarrow> bool" where
  "index_contract vs count =
     (\<forall>emb k results. query vs emb k = Inr results \<longrightarrow>
        (\<exists>docs ds mds.
           documents results = Some [docs] \<and> distances results = Some [ds]
           \<and> metadatas results = Some [mds]
           \<and> length ds = length docs \<and> length mds = length docs
           \<and> int (length docs) \<le> k \<and> length docs \<le> count \<and> sorted ds))"

section \<open>The LLM client module (\<open>core/llm_client.py\<close>)\<close>

text \<open>
  The names the module binds at its top level: the names it imports, the class
  \<open>LLMClient\<close> and the instance \<open>llm_client\<close>.
\<close>

definition llm_client_module_names :: "string list" where
  "llm_client_module_names =
     [''Optional'', ''Dict'', ''Any'', ''Anthropic'', ''OpenAI'', ''settings'',
      ''LLMClient'', ''llm_client'']"

text \<open>
  \<open>from module import ident\<close>, for a module that is a plain file: \<open>ImportError\<close> when the
  module does not bind the name.
\<close>

definition import_from :: "string list \<Rightarrow> string \<Rightarrow> py_error + unit" where
  "import_from names ident = (if ident \<in> set names then Inr () else Inl ImportError)"

text \<open>
  The client as the agents use it: \<open>generate_json(prompt, system_prompt)\<close> calls the
  provider and parses its answer with \<open>json.loads\<close>; the call and the parse may raise.
\<close>

record llm_client =
  generate_json :: "string \<Rightarrow> string \<Rightarrow> py_error + json"

text \<open>
  The statement shared by the three \<open>try\<close> blocks:
  \<open>result = get_llm_client().generate_json(prompt, system_prompt=self.system_prompt)\<close>,
  followed by the log line that reads \<open>email['id']\<close>. The argument \<open>get_llm_client\<close> is
  what evaluating \<open>get_llm_client()\<close> gives: a client, or an exception.
\<close>

definition generation_try ::
  "(py_error + llm_client) \<Rightarrow> string \<Rightarrow> string \<Rightarrow> (string, string) dict \<Rightarrow> py_error + (json \<times> string)" where
  "generation_try get_llm_client prompt system_prompt email_dict =
     bind_err get_llm_client (\<lambda>client.
     bind_err (generate_json client prompt system_prompt) (\<lambda>result.
     bind_err (dict_item email_dict ''id'') (\<lambda>eid.
       Inr (result, eid))))"

text \<open>
  The import of an agent module that starts with
  \<open>from core.llm_client import get_llm_client\<close>: the body of \<open>core/llm_client.py\<close> is
  run (its outcome is \<open>llm_module_body\<close>), then the name is looked up in the module.
\<close>

definition agent_module_import :: "(py_error + unit) \<Rightarrow> py_error + unit" where
  "agent_module_import llm_module_body =
     bind_err llm_module_body (\<lambda>u. import_from llm_client_module_names ''get_llm_client'')"

section \<open>The reply drafter (\<open>agents/reply_drafter.py\<close>)\<close>

definition drafter_system_prompt :: string where
  "drafter_system_prompt = concat
     [''You are a professional email response assistant.\<newline>'',
      ''Draft polite, concise, and contextually appropriate email replies.\<newline>'',
      ''Match the tone of the incoming email and maintain professionalism.'']"

text \<open>The summary dictionary the drafter reads; a key may be absent.\<close>

record email_summary =
  summary :: "string option"
  key_points :: "string list option"
  action_items :: "string list option"
  sentiment :: "string option"

record sender_info =
  name :: string
  full_name :: string
  email_addr :: string

text \<open>The loop of \<open>_format_rag_context\<close>, counting from 1.\<close>

fun rag_context_loop :: "nat \<Rightarrow> hit list \<Rightarrow> string \<Rightarrow> string" where
  "rag_context_loop i [] context = context"
| "rag_context_loop i (resp # rest) context =
     rag_context_loop (Suc i) rest
       (context @ ''\<newline>'' @ str_nat i @ ''. '' @ take 200 (response resp) @ ''...\<newline>'')"

definition format_rag_context :: "hit list \<Rightarrow> string" where
  "format_rag_context similar_responses =
     (if similar_responses = [] then ''''
      else rag_context_loop 1 similar_responses ''SIMILAR PAST RESPONSES (for reference):\<newline>'')"

text \<open>The \<open>try\<close> block of \<open>_extract_sender_name\<close>, and the function with its handler.\<close>

definition extract_sender_name_try :: "string \<Rightarrow> py_error + sender_info" where
  "extract_sender_name_try sender =
     bind_err
       (if CHR ''<'' \<in> set sender \<and> CHR ''>'' \<in> set sender
        then bind_err (list_item (split_char (CHR ''<'') sender) 0) (\<lambda>before.
             bind_err (list_item (split_char (CHR ''<'') sender) 1) (\<lambda>after.
             bind_err (list_item (split_char (CHR ''>'') after) 0) (\<lambda>inside.
               Inr (py_strip [CHR 0x22] (py_strip py_whitespace before),
                    py_strip py_whitespace inside))))
        else Inr ('''', py_strip py_whitespace sender))
       (\<lambda>(full, addr).
          bind_err (if full \<noteq> [] then list_item (split_whitespace full []) 0 else Inr '''')
            (\<lambda>first_name. Inr \<lparr>name = first_name, full_name = full, email_addr = addr\<rparr>))"

definition extract_sender_name :: "string \<Rightarrow> sender_info \<times> log_event list" where
  "extract_sender_name sender =
     (case extract_sender_name_try sender of
        Inr info \<Rightarrow> (info, [])
      | Inl e \<Rightarrow> (\<lparr>name = '''', full_name = '''', email_addr = sender\<rparr>, [ErrorExtractingSender e]))"

definition draft_prompt_text ::
  "string \<Rightarrow> string \<Rightarrow> string \<Rightarrow> string \<Rightarrow> string \<Rightarrow> string \<Rightarrow> string list \<Rightarrow> string list \<Rightarrow>
   string \<Rightarrow> string \<Rightarrow> string \<Rightarrow> string \<Rightarrow> string" where
  \<open>draft_prompt_text sender subj text category priority summary_text points actions
     sentiment_text rag_context additional_context first_name = concat
     [''Draft a professional email reply based on the following:\<newline>'',
      ''\<newline>'',
      ''INCOMING EMAIL:\<newline>'',
      ''From: '', sender, ''\<newline>'',
      ''Subject: '', subj, ''\<newline>'',
      ''Body: '', text, ''\<newline>'',
      ''\<newline>'',
      ''CLASSIFICATION:\<newline>'',
      ''Category: '', category, ''\<newline>'',
      ''Priority: '', priority, ''\<newline>'',
      ''\<newline>'',
      ''SUMMARY:\<newline>'',
      summary_text, ''\<newline>'',
      ''\<newline>'',
      ''Key Points: '', py_join '', '' points, ''\<newline>'',
      ''Action Items: '', py_join '', '' actions, ''\<newline>'',
      ''Sentiment: '', sentiment_text, ''\<newline>'',
      ''\<newline>'',
      rag_context, ''\<newline>'',
      ''\<newline>'',
      additional_context, ''\<newline>'',
      ''\<newline>'',
      ''Generate a reply in the following JSON format:\<newline>'',
      ''{\<newline>'',
      ''    "subject": "Re: original subject",\<newline>'',
      ''    "body": "professionally formatted email body",\<newline>'',
      ''    "tone": "one of: formal, professional, casual, friendly",\<newline>'',
      ''    "confidence": 0.0-1.0\<newline>'',
      ''}\<newline>'',
      ''\<newline>'',
      ''Guidelines:\<newline>'',
      ''- Address the sender by name if available: '',
      (if first_name \<noteq> [] then first_name else ''there''), ''\<newline>'',
      ''- Be concise and clear\<newline>'',
      ''- Address all key points and action items\<newline>'',
      ''- Match the tone of the incoming email\<newline>'',
      ''- Include a clear call-to-action if needed\<newline>'',
      ''- Sign off appropriately\<newline>'',
      ''- If you need more information, ask clarifying questions politely'']\<close>

text \<open>
  \<open>draft_reply\<close> up to its \<open>try\<close> block: the search, the context, the sender's name
  and the prompt. A key that is missing raises \<open>KeyError\<close> to the caller.
\<close>

definition draft_reply_prompt ::
  "'v vector_index \<Rightarrow> (string, string) dict \<Rightarrow> (string, string) dict \<Rightarrow> email_summary \<Rightarrow>
   string option \<Rightarrow> py_error + (string \<times> log_event list)" where
  "draft_reply_prompt vs email_dict classification summ context =
     bind_err (dict_item email_dict ''body'') (\<lambda>text.
       case search_similar_responses vs text 3 of (similar_responses, log1) \<Rightarrow>
     bind_err (dict_item email_dict ''from'') (\<lambda>sender.
       case extract_sender_name sender of (info, log2) \<Rightarrow>
     bind_err (dict_item email_dict ''subject'') (\<lambda>subj.
     bind_err (dict_item classification ''category'') (\<lambda>category.
     bind_err (dict_item classification ''priority'') (\<lambda>priority.
     bind_err (key_item (summary summ)) (\<lambda>summary_text.
     bind_err (key_item (sentiment summ)) (\<lambda>sentiment_text.
       Inr (draft_prompt_text sender subj text category priority summary_text
              (case key_points summ of None \<Rightarrow> [] | Some points \<Rightarrow> points)
              (case action_items summ of None \<Rightarrow> [] | Some actions \<Rightarrow> actions)
              sentiment_text
              (format_rag_context similar_responses)
              (case context of
                 None \<Rightarrow> ''''
               | Some c \<Rightarrow> if c \<noteq> [] then ''ADDITIONAL CONTEXT:\<newline>'' @ c else '''')
              (name info),
            log1 @ log2))))))))"

definition draft_fallback :: "string \<Rightarrow> json" where
  "draft_fallback subj =
     JObj [(''subject'', JStr (''Re: '' @ subj)),
           (''body'', JStr ''Thank you for your email. I will review and get back to you shortly.''),
           (''tone'', JStr ''professional''),
           (''confidence'', JNum 0.3)]"

definition draft_reply ::
  "(py_error + llm_client) \<Rightarrow> 'v vector_index \<Rightarrow> (string, string) dict \<Rightarrow> (string, string) dict \<Rightarrow>
   email_summary \<Rightarrow> string option \<Rightarrow> py_error + (json \<times> log_event list)" where
  "draft_reply get_llm_client vs email_dict classification summ context =
     bind_err (draft_reply_prompt vs email_dict classification summ context) (\<lambda>(prompt, lg).
       case generation_try get_llm_client prompt drafter_system_prompt email_dict of
         Inr (result, eid) \<Rightarrow> Inr (result, lg @ [Drafted eid])
       | Inl e \<Rightarrow>
           bind_err (dict_item email_dict ''subject'') (\<lambda>subj.
             Inr (draft_fallback subj, lg @ [ErrorDrafting e])))"

definition refine_prompt_text :: "string \<Rightarrow> string \<Rightarrow> string \<Rightarrow> string \<Rightarrow> string" where
  \<open>refine_prompt_text original_draft feedback sender subj = concat
     [''Refine the following email reply based on user feedback:\<newline>'',
      ''\<newline>'',
      ''ORIGINAL DRAFT:\<newline>'',
      original_draft, ''\<newline>'',
      ''\<newline>'',
      ''USER FEEDBACK:\<newline>'',
      feedback, ''\<newline>'',
      ''\<newline>'',
      ''ORIGINAL EMAIL CONTEXT:\<newline>'',
      ''From: '', sender, ''\<newline>'',
      ''Subject: '', subj, ''\<newline>'',
      ''\<newline>'',
      ''Generate an improved reply in the following JSON format:\<newline>'',
      ''{\<newline>'',
      ''    "subject": "Re: original subject",\<newline>'',
      ''    "body": "improved email body",\<newline>'',
      ''    "tone": "one of: formal, professional, casual, friendly",\<newline>'',
      ''    "confidence": 0.0-1.0\<newline>'',
      ''}'']\<close>

definition refine_reply_prompt :: "string \<Rightarrow> string \<Rightarrow> (string, string) dict \<Rightarrow> py_error + string" where
  "refine_reply_prompt original_draft feedback email_dict =
     bind_err (dict_item email_dict ''from'') (\<lambda>sender.
     bind_err (dict_item email_dict ''subject'') (\<lambda>subj.
       Inr (refine_prompt_text original_draft feedback sender subj)))"

definition refine_fallback :: "string \<Rightarrow> string \<Rightarrow> json" where
  "refine_fallback subj original_draft =
     JObj [(''subject'', JStr (''Re: '' @ subj)),
           (''body'', JStr original_draft),
           (''tone'', JStr ''professional''),
           (''confidence'', JNum 0.5)]"

definition refine_reply ::
  "(py_error + llm_client) \<Rightarrow> string \<Rightarrow> string \<Rightarrow> (string, string) dict \<Rightarrow>
   py_error + (json \<times> log_event list)" where
  "refine_reply get_llm_client original_draft feedback email_dict =
     bind_err (refine_reply_prompt original_draft feedback email_dict) (\<lambda>prompt.
       case generation_try get_llm_client prompt drafter_system_prompt email_dict of
         Inr (result, eid) \<Rightarrow> Inr (result, [Refined eid])
       | Inl e \<Rightarrow>
           bind_err (dict_item email_dict ''subject'') (\<lambda>subj.
             Inr (refine_fallback subj original_draft, [ErrorRefining e])))"

section \<open>The summarizer (\<open>agents/summarizer.py\<close>)\<close>

definition summarizer_system_prompt :: string where
  "summarizer_system_prompt = concat
     [''You are an expert email summarization assistant.\<newline>'',
      ''Create concise, actionable summaries that capture key information and required actions.'']"

definition summarize_prompt_text :: "string \<Rightarrow> string \<Rightarrow> string \<Rightarrow> string \<Rightarrow> string \<Rightarrow> string" where
  \<open>summarize_prompt_text sender subj text category priority = concat
     [''Summarize the following email concisely:\<newline>'',
      ''\<newline>'',
      ''From: '', sender, ''\<newline>'',
      ''Subject: '', subj, ''\<newline>'',
      ''Body: '', text, ''\<newline>'',
      ''\<newline>'',
      ''Category: '', category, ''\<newline>'',
      ''Priority: '', priority, ''\<newline>'',
      ''\<newline>'',
      ''Provide a summary in the following JSON format:\<newline>'',
      ''{\<newline>'',
      ''    "summary": "2-3 sentence summary",\<newline>'',
      ''    "key_points": ["point 1", "point 2", "point 3"],\<newline>'',
      ''    "action_items": ["action 1", "action 2"],\<newline>'',
      ''    "sentiment": "one of: positive, neutral, negative, urgent"\<newline>'',
      ''}\<newline>'',
      ''\<newline>'',
      ''Focus on:\<newline>'',
      ''- Main purpose of the email\<newline>'',
      ''- Important details or requests\<newline>'',
      ''- Any deadlines or time constraints\<newline>'',
      ''- Action items or required responses'']\<close>

definition summarize_email_prompt ::
  "(string, string) dict \<Rightarrow> (string, string) dict \<Rightarrow> py_error + string" where
  "summarize_email_prompt email_dict classification =
     bind_err (dict_item email_dict ''from'') (\<lambda>sender.
     bind_err (dict_item email_dict ''subject'') (\<lambda>subj.
     bind_err (dict_item email_dict ''body'') (\<lambda>text.
     bind_err (dict_item classification ''category'') (\<lambda>category.
     bind_err (dict_item classification ''priority'') (\<lambda>priority.
       Inr (summarize_prompt_text sender subj text category priority))))))"

definition summary_fallback :: "(string, string) dict \<Rightarrow> json" where
  "summary_fallback email_dict =
     JObj [(''summary'', JStr (dict_get_default email_dict ''snippet'' ''Unable to generate summary'')),
           (''key_points'', JList []),
           (''action_items'', JList []),
           (''sentiment'', JStr ''neutral'')]"

definition summarize_email ::
  "(py_error + llm_client) \<Rightarrow> (string, string) dict \<Rightarrow> (string, string) dict \<Rightarrow>
   py_error + (json \<times> log_event list)" where
  "summarize_email get_llm_client email_dict classification =
     bind_err (summarize_email_prompt email_dict classification) (\<lambda>prompt.
       case generation_try get_llm_client prompt summarizer_system_prompt email_dict of
         Inr (result, eid) \<Rightarrow> Inr (result, [Summarized eid])
       | Inl e \<Rightarrow> Inr (summary_fallback email_dict, [ErrorSummarizing e]))"

section \<open>The agents as the program reaches them\<close>

text \<open>
  A method of an agent class runs only after the module that defines the class has been
  imported: the import comes first, and its exception ends the run.
\<close>

definition run_draft_reply ::
  "(py_error + unit) \<Rightarrow> (py_error + llm_client) \<Rightarrow> 'v vector_index \<Rightarrow> (string, string) dict \<Rightarrow>
   (string, string) dict \<Rightarrow> email_summary \<Rightarrow> string option \<Rightarrow> py_error + (json \<times> log_event list)" where
  "run_draft_reply llm_module_body get_llm_client vs email_dict classification summ context =
     bind_err (agent_module_import llm_module_body) (\<lambda>u.
       draft_reply get_llm_client vs email_dict classification summ context)"

definition run_refine_reply ::
  "(py_error + unit) \<Rightarrow> (py_error + llm_client) \<Rightarrow> string \<Rightarrow> string \<Rightarrow> (string, string) dict \<Rightarrow>
   py_error + (json \<times> log_event list)" where
  "run_refine_reply llm_module_body get_llm_client original_draft feedback email_dict =
     bind_err (agent_module_import llm_module_body) (\<lambda>u.
       refine_reply get_llm_client original_draft feedback email_dict)"

definition run_summarize_email ::
  "(py_error + unit) \<Rightarrow> (py_error + llm_client) \<Rightarrow> (string, string) dict \<Rightarrow> (string, string) dict \<Rightarrow>
   py_error + (json \<times> log_event list)" where
  "run_summarize_email llm_module_body get_llm_client email_dict classification =
     bind_err (agent_module_import llm_module_body) (\<lambda>u.
       summarize_email get_llm_client email_dict classification)"

section \<open>Example values\<close>

definition rec_a :: follow_up where
  "rec_a = \<lparr>email_id = ''a'', subject = ''Invoice'', from_field = ''ann@example.org'',
            follow_up_date = 50, created_at = 5, status = ''pending'', completed_at = None\<rparr>"

definition rec_b :: follow_up where
  "rec_b = \<lparr>email_id = ''b'', subject = ''Minutes'', from_field = ''bob@example.org'',
            follow_up_date = 10, created_at = 6, status = ''completed'', completed_at = Some 30\<rparr>"

definition rec_c :: follow_up where
  "rec_c = \<lparr>email_id = ''c'', subject = ''Contract'', from_field = ''cy@example.org'',
            follow_up_date = 20, created_at = 7, status = ''pending'', completed_at = None\<rparr>"

definition rec_d :: follow_up where
  "rec_d = \<lparr>email_id = ''d'', subject = ''Offer'', from_field = ''dee@example.org'',
            follow_up_date = 200, created_at = 8, status = ''pending'', completed_at = None\<rparr>"

definition example_scheduler :: scheduler where
  "example_scheduler =
     \<lparr>follow_ups = [(''a'', rec_a), (''b'', rec_b), (''c'', rec_c), (''d'', rec_d)],
      storage = NoFile, logged = []\<rparr>"

definition empty_scheduler :: scheduler where
  "empty_scheduler = \<lparr>follow_ups = [], storage = NoFile, logged = []\<rparr>"

definition example_now :: datetime where
  "example_now = 63900000000000000"

definition example_email :: "(string, string) dict" where
  "example_email = [(''id'', ''a''), (''subject'', ''Renewal''), (''from'', ''Ann <ann@example.org>''),
     (''body'', ''Please confirm the renewal.'')]"

definition html_only_single_part :: message_part where
  "html_only_single_part = MessagePart (Some ''text/html'') (Some [(''data'', ''PHA-aGk8L3A-'')]) None"

definition html_only_multipart :: message_part where
  "html_only_multipart =
     MessagePart (Some ''multipart/related'') (Some [])
       (Some [MessagePart (Some ''text/html'') (Some [(''data'', ''PHA-aGk8L3A-'')]) None,
              MessagePart (Some ''image/png'') (Some [(''attachmentId'', ''att1'')]) None])"

definition multipart_message :: message_part where
  "multipart_message =
     MessagePart (Some ''multipart/mixed'') (Some [])
       (Some [MessagePart (Some ''text/html'') (Some [(''data'', ''PHA-aGk8L3A-'')]) None,
              MessagePart (Some ''text/plain'') (Some [(''data'', ''SGVsbG8='')]) None,
              MessagePart (Some ''text/plain'') (Some [(''data'', ''PHA-aGk8L3A-'')]) None])"

definition plain_single_part :: message_part where
  "plain_single_part = MessagePart (Some ''text/plain'') (Some [(''data'', ''SGVsbG8='')]) None"

definition nested_plain_message :: message_part where
  "nested_plain_message =
     MessagePart (Some ''multipart/mixed'') (Some [])
       (Some [MessagePart (Some ''multipart/alternative'') (Some [])
                (Some [MessagePart (Some ''text/plain'') (Some [(''data'', ''SGVsbG8='')]) None,
                       MessagePart (Some ''text/html'') (Some [(''data'', ''PHA-aGk8L3A-'')]) None]),
              MessagePart (Some ''image/png'') (Some [(''attachmentId'', ''att1'')]) None])"

definition attachment_first_message :: message_part where
  "attachment_first_message =
     MessagePart (Some ''multipart/mixed'') (Some [])
       (Some [MessagePart (Some ''text/plain'') (Some [(''attachmentId'', ''att1'')]) None,
              MessagePart (Some ''text/plain'') (Some [(''data'', ''SGVsbG8='')]) None])"

definition untyped_part_message :: message_part where
  "untyped_part_message =
     MessagePart (Some ''multipart/mixed'') (Some [])
       (Some [MessagePart None (Some [(''data'', ''PHA-aGk8L3A-'')]) None,
              MessagePart (Some ''text/plain'') (Some [(''data'', ''SGVsbG8='')]) None])"

definition example_index :: "nat vector_index" where
  "example_index =
     \<lparr>encode = (\<lambda>text. Inr (length text)),
      query = (\<lambda>emb k.
        if k \<le> 0 then Inl (ExternalError ''n_results'')
        else Inr \<lparr>documents = Some [take (nat k) [''Tuesday works for me.'', ''Thanks, received.'']],
                  distances = Some [take (nat k) [1 / 10, 2 / 5]],
                  metadatas = Some [take (nat k)
                    [[(''category'', ''important'')], [(''category'', ''general'')]]]\<rparr>)\<rparr>"

definition example_classification :: "(string, string) dict" where
  "example_classification = [(''category'', ''important''), (''priority'', ''high'')]"

definition example_summary :: email_summary where
  "example_summary =
     \<lparr>summary = Some ''Ann asks to confirm the renewal.'',
      key_points = Some [''renewal'', ''confirmation''],
      action_items = None,
      sentiment = Some ''neutral''\<rparr>"

definition failing_client :: llm_client where
  "failing_client = \<lparr>generate_json = (\<lambda>prompt system_prompt. Inl (ExternalError ''JSONDecodeError''))\<rparr>"

definition generated_draft :: json where
  "generated_draft =
     JObj [(''subject'', JStr ''Your renewal is confirmed''),
           (''body'', JStr ''Hi Ann, all set!''),
           (''tone'', JStr ''friendly''),
           (''confidence'', JNum 0.9)]"

section \<open>Properties of the dictionary operations\<close>

lemma dict_get_set: "dict_get (dict_set k v d) k' = (if k' = k then Some v else dict_get d k')"
  by (induction d) (auto simp: dict_get_def)

lemma keys_dict_set: "set (map fst (dict_set k v d)) = insert k (set (map fst d))"
  by (induction d) auto

lemma distinct_dict_set: "distinct (map fst d) \<Longrightarrow> distinct (map fst (dict_set k v d))"
  by (induction d) (auto simp: keys_dict_set simp flip: set_map)

lemma values_dict_set: "(k', v') \<in> set (dict_set k v d) \<Longrightarrow> (k', v') = (k, v) \<or> (k', v') \<in> set d"
  by (induction d) (auto split: if_splits)

lemma filter_key_absent: "k \<notin> fst ` set d \<Longrightarrow> filter (\<lambda>e. fst e = k) d = []"
  by (induction d) auto

lemma dict_set_once:
  "distinct (map fst d) \<Longrightarrow> length (filter (\<lambda>e. fst e = k) (dict_set k v d)) = 1"
  by (induction d) (auto simp: filter_key_absent)

lemma distinct_dict_del: "distinct (map fst d) \<Longrightarrow> distinct (map fst (dict_del k d))"
  by (simp add: dict_del_def distinct_map_filter)

lemma dict_get_del: "dict_get (dict_del k d) k' = (if k' = k then None else dict_get d k')"
  by (induction d) (auto simp: dict_get_def dict_del_def)

lemma dict_get_in: "distinct (map fst d) \<Longrightarrow> (k, v) \<in> set d \<Longrightarrow> dict_get d k = Some v"
  by (simp add: dict_get_def)

lemma dict_set_value: "distinct (map fst d) \<Longrightarrow> (k, v') \<in> set (dict_set k v d) \<Longrightarrow> v' = v"
  using dict_get_in [of "dict_set k v d" k v'] by (simp add: distinct_dict_set dict_get_set)

lemma dict_get_Some_in: "dict_get d k = Some v \<Longrightarrow> (k, v) \<in> set d"
  by (simp add: dict_get_def map_of_SomeD)

section \<open>Properties of the scheduler\<close>

lemma due_loop_filter: "due_loop now items acc = acc @ filter (is_due now) (map snd items)"
  by (induction now items acc rule: due_loop.induct) (auto simp: is_due_def)

lemma count_status_filter: "count_status st items = length (filter (\<lambda>f. status f = st) (map snd items))"
  by (induction st items rule: count_status.induct) auto

lemma follow_ups_save [simp]: "follow_ups (save_follow_ups io s) = follow_ups s"
  by (cases io) (simp_all add: save_follow_ups_def)

lemma follow_ups_cancel:
  "follow_ups (cancel_follow_up io eid s) = dict_del eid (follow_ups s)"
proof (cases "dict_contains (follow_ups s) eid")
  case True
  then show ?thesis by (simp add: cancel_follow_up_def Let_def)
next
  case False
  then have "filter (\<lambda>e. fst e \<noteq> eid) (follow_ups s) = follow_ups s"
    by (auto simp: dict_contains_def filter_id_conv)
  with False show ?thesis by (simp add: cancel_follow_up_def dict_del_def)
qed

lemma fst_get_due: "fst (get_due_follow_ups now s) = filter (is_due now) (map snd (follow_ups s))"
  by (simp add: get_due_follow_ups_def Let_def due_loop_filter)

lemma stats_value:
  "get_follow_up_stats s =
     Inr \<lparr>total = length (follow_ups s),
          pending = count_status ''pending'' (follow_ups s),
          completed = count_status ''completed'' (follow_ups s),
          completion_rate =
            (if length (follow_ups s) > 0
             then real (count_status ''completed'' (follow_ups s)) / real (length (follow_ups s)) * 100
             else 0)\<rparr>"
  by (simp add: get_follow_up_stats_def Let_def py_truediv_def)

lemma store_ok_dict_set: "store_ok d \<Longrightarrow> email_id v = k \<Longrightarrow> store_ok (dict_set k v d)"
  unfolding store_ok_def list_all_iff
  by (auto simp: distinct_dict_set dest: values_dict_set)

lemma store_ok_dict_del: "store_ok d \<Longrightarrow> store_ok (dict_del k d)"
  unfolding store_ok_def list_all_iff
  by (auto simp: distinct_dict_del) (auto simp: dict_del_def)

lemma store_ok_key: "store_ok d \<Longrightarrow> (k, v) \<in> set d \<Longrightarrow> email_id v = k"
  unfolding store_ok_def list_all_iff by auto

lemma follow_ups_mark_completed:
  "follow_ups (mark_completed now io eid s) =
     (case dict_get (follow_ups s) eid of
        None \<Rightarrow> follow_ups s
      | Some fu \<Rightarrow> dict_set eid (fu\<lparr>status := ''completed'', completed_at := Some now\<rparr>) (follow_ups s))"
  by (simp add: mark_completed_def Let_def split: option.split)

lemma store_ok_mark_completed:
  assumes "store_ok (follow_ups s)"
  shows "store_ok (follow_ups (mark_completed now io eid s))"
proof (cases "dict_get (follow_ups s) eid")
  case None
  with assms show ?thesis by (simp add: follow_ups_mark_completed)
next
  case (Some fu)
  then have "email_id fu = eid"
    using assms by (auto dest: dict_get_Some_in store_ok_key)
  with Some assms show ?thesis
    by (simp add: follow_ups_mark_completed store_ok_dict_set)
qed

lemma store_ok_cancel: "store_ok (follow_ups s) \<Longrightarrow> store_ok (follow_ups (cancel_follow_up io eid s))"
  by (simp add: follow_ups_cancel store_ok_dict_del)

lemma completed_not_due:
  assumes ok: "store_ok (follow_ups s)"
    and due: "fu \<in> set (fst (get_due_follow_ups t (mark_completed now io eid s)))"
  shows "email_id fu \<noteq> eid"
proof
  assume eq: "email_id fu = eid"
  let ?d = "follow_ups (mark_completed now io eid s)"
  from due obtain k where mem: "(k, fu) \<in> set ?d" and isdue: "is_due t fu"
    by (auto simp: fst_get_due)
  have ok': "store_ok ?d" using ok by (rule store_ok_mark_completed)
  with mem eq have k: "k = eid" by (auto dest: store_ok_key)
  show False
  proof (cases "dict_get (follow_ups s) eid")
    case None
    then have "eid \<notin> fst ` set (follow_ups s)"
      by (simp add: dict_get_def map_of_eq_None_iff)
    moreover from None mem k have "(eid, fu) \<in> set (follow_ups s)"
      by (simp add: follow_ups_mark_completed)
    ultimately show False by force
  next
    case (Some old)
    with mem k have "(eid, fu) \<in> set (dict_set eid (old\<lparr>status := ''completed'', completed_at := Some now\<rparr>) (follow_ups s))"
      by (simp add: follow_ups_mark_completed)
    then have "fu = old\<lparr>status := ''completed'', completed_at := Some now\<rparr>"
      using ok by (auto simp: store_ok_def dest: dict_set_value)
    with isdue show False by (simp add: is_due_def)
  qed
qed

lemma example_store_ok: "store_ok (follow_ups example_scheduler)"
  by (simp add: store_ok_def example_scheduler_def rec_a_def rec_b_def rec_c_def rec_d_def)

lemma store_ok_empty: "store_ok []"
  by (simp add: store_ok_def)

lemma store_ok_schedule:
  assumes "store_ok (follow_ups s)"
    and "schedule_follow_up cfg now1 now2 io eid email_data days_until s = Inr (res, s')"
  shows "store_ok (follow_ups s')"
  using assms
  by (auto simp: schedule_follow_up_def Let_def store_ok_dict_set split: sum.splits)

lemma schedule_follow_up_in_range:
  assumes "days = (case days_until of None \<Rightarrow> follow_up_days cfg | Some d \<Rightarrow> d)"
    and "- 999999999 \<le> days" and "days \<le> 999999999"
    and "0 \<le> now1 + days * microseconds_per_day"
    and "now1 + days * microseconds_per_day \<le> datetime_max"
  shows "schedule_follow_up cfg now1 now2 io eid email_data days_until s =
     Inr (\<lparr>result_follow_up_date = now1 + days * microseconds_per_day, scheduled = True\<rparr>,
          (save_follow_ups io
             (s\<lparr>follow_ups :=
                  dict_set eid
                    \<lparr>email_id = eid,
                     subject = dict_get_default email_data ''subject'' '''',
                     from_field = dict_get_default email_data ''from'' '''',
                     follow_up_date = now1 + days * microseconds_per_day,
                     created_at = now2,
                     status = ''pending'',
                     completed_at = None\<rparr>
                    (follow_ups s)\<rparr>))
          \<lparr>logged := logged (save_follow_ups io s) @ [Scheduled eid (now1 + days * microseconds_per_day)]\<rparr>)"
  using assms
  by (cases io) (simp_all add: schedule_follow_up_def timedelta_days_def datetime_add_def Let_def save_follow_ups_def)

lemma schedule_follow_up_out_of_range:
  assumes "days = (case days_until of None \<Rightarrow> follow_up_days cfg | Some d \<Rightarrow> d)"
    and "\<not> (- 999999999 \<le> days \<and> days \<le> 999999999
            \<and> 0 \<le> now1 + days * microseconds_per_day
            \<and> now1 + days * microseconds_per_day \<le> datetime_max)"
  shows "schedule_follow_up cfg now1 now2 io eid email_data days_until s = Inl OverflowError"
  using assms
  by (auto simp: schedule_follow_up_def timedelta_days_def datetime_add_def Let_def)

subsection \<open>The due list\<close>

text \<open>
  Claim C1. At every scheduler state and query time, \<open>get_due_follow_ups\<close> returns the
  records whose status is \<open>pending\<close> and whose \<open>follow_up_date\<close> is at most the query
  time, and no other: the result is the list of the store's values in the store's own
  (insertion) order, filtered by that test, so it holds no completed record, and after
  \<open>cancel_follow_up\<close> of an id it is computed from the entries under the other keys
  only. The order is not the order of the due dates, as the example state shows.
\<close>

theorem due_list_exact:
  "fst (get_due_follow_ups now s) =
     filter (\<lambda>fu. status fu = ''pending'' \<and> follow_up_date fu \<le> now) (map snd (follow_ups s))
   \<and> (\<forall>fu \<in> set (fst (get_due_follow_ups now s)). status fu \<noteq> ''completed'')
   \<and> fst (get_due_follow_ups now (cancel_follow_up io eid s)) =
     filter (\<lambda>fu. status fu = ''pending'' \<and> follow_up_date fu \<le> now)
       (map snd (filter (\<lambda>e. fst e \<noteq> eid) (follow_ups s)))"
  by (simp add: fst_get_due follow_ups_cancel dict_del_def is_due_def [abs_def])

theorem due_list_exact_witness:
  "fst (get_due_follow_ups 100 example_scheduler) = [rec_a, rec_c]
   \<and> follow_up_date rec_a > follow_up_date rec_c
   \<and> rec_b \<notin> set (fst (get_due_follow_ups 100 example_scheduler))
   \<and> fst (get_due_follow_ups 100 (cancel_follow_up WriteOk ''a'' example_scheduler)) = [rec_c]"
  using due_list_exact [of 100 example_scheduler WriteOk "''a''"]
  by (simp add: example_scheduler_def rec_a_def rec_b_def rec_c_def rec_d_def)

subsection \<open>Completing a follow-up\<close>

text \<open>
  Claim C4. In a scheduler state whose dictionary holds every record under its own
  \<open>email_id\<close>, \<open>mark_completed\<close> of an id that is absent changes nothing; for an
  id that is present it replaces the record by the same record with status
  \<open>completed\<close> and \<open>completed_at\<close> set to the clock reading; and afterwards no
  record of that id is in the result of \<open>get_due_follow_ups\<close>, at any query time,
  hence also when its \<open>follow_up_date\<close> has passed.
\<close>

theorem complete_then_not_due:
  assumes "store_ok (follow_ups s)"
  shows "(dict_get (follow_ups s) eid = None \<longrightarrow> mark_completed now io eid s = s)
     \<and> (\<forall>fu. dict_get (follow_ups s) eid = Some fu \<longrightarrow>
           dict_get (follow_ups (mark_completed now io eid s)) eid =
             Some (fu\<lparr>status := ''completed'', completed_at := Some now\<rparr>))
     \<and> (\<forall>fu \<in> set (fst (get_due_follow_ups t (mark_completed now io eid s))). email_id fu \<noteq> eid)"
proof (intro conjI allI impI ballI)
  assume "dict_get (follow_ups s) eid = None"
  then show "mark_completed now io eid s = s" by (simp add: mark_completed_def)
next
  fix fu assume "dict_get (follow_ups s) eid = Some fu"
  then show "dict_get (follow_ups (mark_completed now io eid s)) eid =
      Some (fu\<lparr>status := ''completed'', completed_at := Some now\<rparr>)"
    by (simp add: follow_ups_mark_completed dict_get_set)
next
  fix fu assume "fu \<in> set (fst (get_due_follow_ups t (mark_completed now io eid s)))"
  with assms show "email_id fu \<noteq> eid" by (rule completed_not_due)
qed

theorem complete_then_not_due_witness:
  "store_ok (follow_ups example_scheduler)
   \<and> fst (get_due_follow_ups 100 example_scheduler) = [rec_a, rec_c]
   \<and> dict_get (follow_ups (mark_completed 60 WriteOk ''a'' example_scheduler)) ''a'' =
       Some (rec_a\<lparr>status := ''completed'', completed_at := Some 60\<rparr>)
   \<and> fst (get_due_follow_ups 100 (mark_completed 60 WriteOk ''a'' example_scheduler)) = [rec_c]
   \<and> mark_completed 60 WriteOk ''z'' example_scheduler = example_scheduler"
  using complete_then_not_due [OF example_store_ok, of "''a''" 60 WriteOk 100]
    complete_then_not_due [OF example_store_ok, of "''z''" 60 WriteOk 100]
  by (simp add: example_store_ok)
     (simp add: example_scheduler_def rec_a_def rec_b_def rec_c_def rec_d_def
        get_due_follow_ups_def mark_completed_def dict_get_def save_follow_ups_def Let_def)

subsection \<open>Scheduling a follow-up\<close>

text \<open>
  Claim C2, as amended. For every \<open>days_until\<close> (the configured default when it is
  \<open>None\<close>; zero and negative values included) within \<open>timedelta\<close>'s 999999999
  days, for which the first clock reading plus that many days is a date of the years
  1..9999, \<open>schedule_follow_up\<close> returns, and the record under the id is then the new
  \<open>pending\<close> record: its \<open>follow_up_date\<close> is the first clock reading plus exactly
  \<open>days_until\<close> days, its \<open>created_at\<close> the second clock reading, and no field
  comes from a record that was there before. The id has exactly one entry, the keys stay
  distinct, and every other id keeps its record.
\<close>

theorem schedule_creates_pending_record:
  assumes "distinct (map fst (follow_ups s))"
    and "days = (case days_until of None \<Rightarrow> follow_up_days cfg | Some d \<Rightarrow> d)"
    and "- 999999999 \<le> days" and "days \<le> 999999999"
    and "0 \<le> now1 + days * microseconds_per_day"
    and "now1 + days * microseconds_per_day \<le> datetime_max"
  shows "\<exists>res s'. schedule_follow_up cfg now1 now2 io eid email_data days_until s = Inr (res, s')
     \<and> res = \<lparr>result_follow_up_date = now1 + days * microseconds_per_day, scheduled = True\<rparr>
     \<and> dict_get (follow_ups s') eid =
         Some \<lparr>email_id = eid,
               subject = dict_get_default email_data ''subject'' '''',
               from_field = dict_get_default email_data ''from'' '''',
               follow_up_date = now1 + days * microseconds_per_day,
               created_at = now2,
               status = ''pending'',
               completed_at = None\<rparr>
     \<and> length (filter (\<lambda>e. fst e = eid) (follow_ups s')) = 1
     \<and> distinct (map fst (follow_ups s'))
     \<and> (\<forall>k. k \<noteq> eid \<longrightarrow> dict_get (follow_ups s') k = dict_get (follow_ups s) k)"
  using assms(1)
  by (simp add: schedule_follow_up_in_range [OF assms(2-6)] dict_get_set dict_set_once distinct_dict_set)

theorem schedule_creates_pending_record_witness:
  "distinct (map fst (follow_ups example_scheduler))
   \<and> schedule_follow_up \<lparr>follow_up_days = 3\<rparr> example_now (example_now + 7) WriteOk ''a''
       example_email (Some (- 2)) example_scheduler =
     Inr (\<lparr>result_follow_up_date = example_now - 2 * microseconds_per_day, scheduled = True\<rparr>,
          \<lparr>follow_ups =
             [(''a'', \<lparr>email_id = ''a'', subject = ''Renewal'', from_field = ''Ann <ann@example.org>'',
                      follow_up_date = example_now - 2 * microseconds_per_day,
                      created_at = example_now + 7, status = ''pending'', completed_at = None\<rparr>),
              (''b'', rec_b), (''c'', rec_c), (''d'', rec_d)],
           storage = Content
             [(''a'', \<lparr>email_id = ''a'', subject = ''Renewal'', from_field = ''Ann <ann@example.org>'',
                      follow_up_date = example_now - 2 * microseconds_per_day,
                      created_at = example_now + 7, status = ''pending'', completed_at = None\<rparr>),
              (''b'', rec_b), (''c'', rec_c), (''d'', rec_d)],
           logged = [Scheduled ''a'' (example_now - 2 * microseconds_per_day)]\<rparr>)"
  using schedule_creates_pending_record [where s = example_scheduler and days = "- 2"
      and days_until = "Some (- 2)" and cfg = "\<lparr>follow_up_days = 3\<rparr>" and ?now1.0 = example_now
      and ?now2.0 = "example_now + 7" and io = WriteOk and eid = "''a''" and email_data = example_email]
  by (simp add: example_scheduler_def example_now_def example_email_def microseconds_per_day_def
      datetime_max_def dict_get_default_def dict_get_def save_follow_ups_def
      schedule_follow_up_def timedelta_days_def datetime_add_def Let_def)

text \<open>
  As stated for every integer, claim C2 fails: \<open>timedelta(days=1000000000)\<close> raises
  \<open>OverflowError\<close>, and no record is made.
\<close>

theorem schedule_overflow_counterexample:
  "schedule_follow_up \<lparr>follow_up_days = 3\<rparr> example_now example_now WriteOk ''a'' example_email
     (Some 1000000000) empty_scheduler = Inl OverflowError"
  by (simp add: schedule_follow_up_def timedelta_days_def)

text \<open>
  Claim C8, as amended. \<open>schedule_follow_up\<close> has one error path, the
  \<open>OverflowError\<close> of the date arithmetic when the number of days or the due date
  is out of range. Otherwise it returns to its caller whatever the write of the file
  does: the dictionary in memory holds the new record in each case; after a successful
  write the file holds the dictionary; when \<open>open\<close> raises the file is as it was, when
  \<open>json.dump\<close> raises it is garbled, and in both cases the error is logged and not
  raised again.
\<close>

theorem schedule_swallows_save_errors:
  assumes "days = (case days_until of None \<Rightarrow> follow_up_days cfg | Some d \<Rightarrow> d)"
    and "due = now1 + days * microseconds_per_day"
    and "r = \<lparr>email_id = eid,
               subject = dict_get_default email_data ''subject'' '''',
               from_field = dict_get_default email_data ''from'' '''',
               follow_up_date = due, created_at = now2,
               status = ''pending'', completed_at = None\<rparr>"
  shows "if - 999999999 \<le> days \<and> days \<le> 999999999 \<and> 0 \<le> due \<and> due \<le> datetime_max
     then \<exists>s'. schedule_follow_up cfg now1 now2 io eid email_data days_until s =
                  Inr (\<lparr>result_follow_up_date = due, scheduled = True\<rparr>, s')
            \<and> follow_ups s' = dict_set eid r (follow_ups s)
            \<and> (case io of
                  WriteOk \<Rightarrow> storage s' = Content (follow_ups s')
                             \<and> logged s' = logged s @ [Scheduled eid due]
                | OpenRaises \<Rightarrow> storage s' = storage s
                             \<and> logged s' = logged s @ [ErrorSaving, Scheduled eid due]
                | DumpRaises \<Rightarrow> storage s' = Garbled
                             \<and> logged s' = logged s @ [ErrorSaving, Scheduled eid due])
     else schedule_follow_up cfg now1 now2 io eid email_data days_until s = Inl OverflowError"
proof (cases "- 999999999 \<le> days \<and> days \<le> 999999999 \<and> 0 \<le> due \<and> due \<le> datetime_max")
  case True
  then show ?thesis
    using assms
    by (cases io) (simp_all add: schedule_follow_up_in_range save_follow_ups_def)
next
  case False
  then show ?thesis
    using schedule_follow_up_out_of_range [OF assms(1), of now1] assms(2) by simp
qed

theorem schedule_swallows_save_errors_witness:
  "schedule_follow_up \<lparr>follow_up_days = 3\<rparr> example_now example_now OpenRaises ''e'' example_email
       None empty_scheduler =
     Inr (\<lparr>result_follow_up_date = example_now + 3 * microseconds_per_day, scheduled = True\<rparr>,
          \<lparr>follow_ups =
             [(''e'', \<lparr>email_id = ''e'', subject = ''Renewal'', from_field = ''Ann <ann@example.org>'',
                      follow_up_date = example_now + 3 * microseconds_per_day,
                      created_at = example_now, status = ''pending'', completed_at = None\<rparr>)],
           storage = NoFile,
           logged = [ErrorSaving, Scheduled ''e'' (example_now + 3 * microseconds_per_day)]\<rparr>)"
  using schedule_swallows_save_errors [where days = 3 and days_until = None
      and cfg = "\<lparr>follow_up_days = 3\<rparr>" and ?now1.0 = example_now and ?now2.0 = example_now
      and io = OpenRaises and eid = "''e''" and email_data = example_email
      and s = empty_scheduler, OF _ refl refl]
  by (auto simp: empty_scheduler_def example_now_def example_email_def microseconds_per_day_def
      datetime_max_def dict_get_default_def dict_get_def)

text \<open>
  As stated, claim C8 fails: with \<open>follow_up_days\<close> configured as 3000000 the due
  date lies beyond the year 9999, and the call raises \<open>OverflowError\<close> although the
  file could be written.
\<close>

theorem schedule_date_overflow_counterexample:
  "schedule_follow_up \<lparr>follow_up_days = 3000000\<rparr> example_now example_now WriteOk ''a'' example_email
     None empty_scheduler = Inl OverflowError"
  by (simp add: schedule_follow_up_def timedelta_days_def datetime_add_def example_now_def
      microseconds_per_day_def datetime_max_def)

subsection \<open>Statistics\<close>

text \<open>
  Claim C9. At every scheduler state \<open>get_follow_up_stats\<close> returns a result and raises
  no \<open>ZeroDivisionError\<close>: \<open>total\<close> is the number of records, \<open>pending\<close> and
  \<open>completed\<close> count the records of that status, \<open>completion_rate\<close> is
  \<open>completed / total * 100\<close> when \<open>total > 0\<close> and \<open>0\<close> otherwise; on the empty store
  all four are zero.
\<close>

theorem stats_counts:
  "\<exists>st. get_follow_up_stats s = Inr st
     \<and> total st = length (follow_ups s)
     \<and> pending st = length (filter (\<lambda>fu. status fu = ''pending'') (map snd (follow_ups s)))
     \<and> completed st = length (filter (\<lambda>fu. status fu = ''completed'') (map snd (follow_ups s)))
     \<and> completion_rate st =
         (if total st > 0 then real (completed st) / real (total st) * 100 else 0)
     \<and> (follow_ups s = [] \<longrightarrow>
          st = \<lparr>total = 0, pending = 0, completed = 0, completion_rate = 0\<rparr>)"
  by (simp add: stats_value count_status_filter)

theorem stats_counts_witness:
  "get_follow_up_stats empty_scheduler =
     Inr \<lparr>total = 0, pending = 0, completed = 0, completion_rate = 0\<rparr>
   \<and> get_follow_up_stats example_scheduler =
     Inr \<lparr>total = 4, pending = 3, completed = 1, completion_rate = 25\<rparr>"
  using stats_counts [of empty_scheduler] stats_counts [of example_scheduler]
  by (auto simp: empty_scheduler_def example_scheduler_def rec_a_def rec_b_def rec_c_def rec_d_def)

section \<open>Properties of the body extraction\<close>

lemma parts_loop_skip:
  assumes "\<forall>q \<in> set pre. passed_over q"
  shows "parts_loop decode (pre @ rest) = parts_loop decode rest"
  using assms
  by (induction pre) (auto simp: passed_over_def split: option.splits if_splits)

lemma parts_loop_none:
  assumes "\<forall>q \<in> set ps. passed_over q"
  shows "parts_loop decode ps = Inr ''''"
  using parts_loop_skip [OF assms, of decode "[]"] by simp

lemma not_passed_over:
  "\<not> passed_over p \<longleftrightarrow>
     mimeType p = None
     \<or> mimeType p = Some ''text/plain''
        \<and> (body p = None \<or> (\<exists>b d. body p = Some b \<and> dict_get b ''data'' = Some d))"
  by (auto simp: passed_over_def split: option.splits)

lemma parts_scan_cases:
  "(\<forall>q \<in> set ps. passed_over q)
   \<or> (\<exists>pre p post. ps = pre @ p # post \<and> (\<forall>q \<in> set pre. passed_over q) \<and> \<not> passed_over p)"
proof (cases "\<exists>q \<in> set ps. \<not> passed_over q")
  case True
  then obtain pre p post where "ps = pre @ p # post" "\<not> passed_over p"
    "\<forall>q \<in> set pre. \<not> \<not> passed_over q"
    using split_list_first_prop [of ps "\<lambda>q. \<not> passed_over q"] by blast
  then show ?thesis by auto
next
  case False
  then show ?thesis by simp
qed

lemma decode_hello: "urlsafe_b64decode_ascii ''SGVsbG8='' = Inr ''Hello''"
  by (simp add: urlsafe_b64decode_ascii_def urlsafe_alphabet_def char_of_eq_iff)

lemma decode_html: "urlsafe_b64decode_ascii ''PHA-aGk8L3A-'' = Inr ''<p>hi</p>''"
  by (simp add: urlsafe_b64decode_ascii_def urlsafe_alphabet_def char_of_eq_iff)

text \<open>
  Claim C7, as amended. Every payload falls under one of four cases, and in each
  \<open>_get_email_body\<close> does the following. A payload with a \<open>parts\<close> list is scanned in
  the order of that list, without descent into the parts of a part; parts of another type
  and \<open>text/plain\<close> parts without data are passed over. (1) The first \<open>text/plain\<close>
  part that carries data ends the scan, and the result is what decoding its data gives.
  (2) When every listed part is passed over, as in a multipart message with HTML only,
  the result is the empty string and no error. (3) A part without \<open>mimeType\<close>, or a
  \<open>text/plain\<close> part without \<open>body\<close>, that the scan reaches raises \<open>KeyError\<close>.
  (4) A payload without \<open>parts\<close> gives what decoding its own body data gives, whatever
  its type, and the empty string when it has none.
\<close>

theorem email_body_extraction:
  "(\<forall>pre p post b d.
      parts payload = Some (pre @ p # post) \<and> (\<forall>q \<in> set pre. passed_over q)
      \<and> mimeType p = Some ''text/plain'' \<and> body p = Some b \<and> dict_get b ''data'' = Some d
      \<longrightarrow> get_email_body decode payload = decode d)
   \<and> (\<forall>ps. parts payload = Some ps \<and> (\<forall>q \<in> set ps. passed_over q)
        \<longrightarrow> get_email_body decode payload = Inr '''')
   \<and> (\<forall>pre p post.
        parts payload = Some (pre @ p # post) \<and> (\<forall>q \<in> set pre. passed_over q)
        \<and> (mimeType p = None \<or> mimeType p = Some ''text/plain'' \<and> body p = None)
        \<longrightarrow> get_email_body decode payload = Inl KeyError)
   \<and> (parts payload = None \<longrightarrow>
        get_email_body decode payload =
          (case body payload of
             None \<Rightarrow> Inr ''''
           | Some b \<Rightarrow> (case dict_get b ''data'' of None \<Rightarrow> Inr '''' | Some d \<Rightarrow> decode d)))
   \<and> (parts payload = None
       \<or> (\<exists>ps. parts payload = Some ps \<and> (\<forall>q \<in> set ps. passed_over q))
       \<or> (\<exists>pre p post. parts payload = Some (pre @ p # post) \<and> (\<forall>q \<in> set pre. passed_over q)
            \<and> (mimeType p = None
                \<or> mimeType p = Some ''text/plain''
                   \<and> (body p = None \<or> (\<exists>b d. body p = Some b \<and> dict_get b ''data'' = Some d)))))"
proof (intro conjI allI impI)
  fix pre p post b d
  assume a: "parts payload = Some (pre @ p # post) \<and> (\<forall>q \<in> set pre. passed_over q)
      \<and> mimeType p = Some ''text/plain'' \<and> body p = Some b \<and> dict_get b ''data'' = Some d"
  then have "parts_loop decode (pre @ p # post) = parts_loop decode (p # post)"
    by (intro parts_loop_skip) simp
  with a show "get_email_body decode payload = decode d"
    by (simp add: get_email_body_def)
next
  fix ps
  assume "parts payload = Some ps \<and> (\<forall>q \<in> set ps. passed_over q)"
  then show "get_email_body decode payload = Inr ''''"
    by (simp add: get_email_body_def parts_loop_none)
next
  fix pre p post
  assume a: "parts payload = Some (pre @ p # post) \<and> (\<forall>q \<in> set pre. passed_over q)
        \<and> (mimeType p = None \<or> mimeType p = Some ''text/plain'' \<and> body p = None)"
  then have "parts_loop decode (pre @ p # post) = parts_loop decode (p # post)"
    by (intro parts_loop_skip) simp
  with a show "get_email_body decode payload = Inl KeyError"
    by (auto simp: get_email_body_def)
next
  assume "parts payload = None"
  then show "get_email_body decode payload =
          (case body payload of
             None \<Rightarrow> Inr ''''
           | Some b \<Rightarrow> (case dict_get b ''data'' of None \<Rightarrow> Inr '''' | Some d \<Rightarrow> decode d))"
    by (simp add: get_email_body_def)
next
  show "parts payload = None
       \<or> (\<exists>ps. parts payload = Some ps \<and> (\<forall>q \<in> set ps. passed_over q))
       \<or> (\<exists>pre p post. parts payload = Some (pre @ p # post) \<and> (\<forall>q \<in> set pre. passed_over q)
            \<and> (mimeType p = None
                \<or> mimeType p = Some ''text/plain''
                   \<and> (body p = None \<or> (\<exists>b d. body p = Some b \<and> dict_get b ''data'' = Some d))))"
  proof (cases "parts payload")
    case None
    then show ?thesis by simp
  next
    case (Some ps)
    with parts_scan_cases [of ps] show ?thesis
      unfolding not_passed_over by auto
  qed
qed

theorem email_body_extraction_witness:
  "get_email_body urlsafe_b64decode_ascii multipart_message = Inr ''Hello''
   \<and> get_email_body urlsafe_b64decode_ascii html_only_multipart = Inr ''''
   \<and> get_email_body urlsafe_b64decode_ascii untyped_part_message = Inl KeyError
   \<and> get_email_body urlsafe_b64decode_ascii plain_single_part = Inr ''Hello''"
  using email_body_extraction [of multipart_message urlsafe_b64decode_ascii]
    email_body_extraction [of html_only_multipart urlsafe_b64decode_ascii]
    email_body_extraction [of untyped_part_message urlsafe_b64decode_ascii]
    email_body_extraction [of plain_single_part urlsafe_b64decode_ascii]
  by (simp add: multipart_message_def plain_single_part_def html_only_multipart_def
      untyped_part_message_def get_email_body_def dict_get_def decode_hello)

text \<open>
  As stated, claim C7 fails in four ways, each at a payload of its own. A message whose
  only content is HTML in a single part has no \<open>parts\<close>, so the single-part branch
  returns the decoded HTML, not the empty string. A \<open>text/plain\<close> part inside a
  \<open>multipart/alternative\<close> part is not reached, and the result is the empty string. A
  first \<open>text/plain\<close> part that is an attachment without data is passed over, and the
  text of the second is returned. A part without \<open>mimeType\<close> raises \<open>KeyError\<close>
  although a \<open>text/plain\<close> part follows.
\<close>

theorem email_body_claim_counterexample:
  "get_email_body urlsafe_b64decode_ascii html_only_single_part = Inr ''<p>hi</p>''
   \<and> get_email_body urlsafe_b64decode_ascii nested_plain_message = Inr ''''
   \<and> get_email_body urlsafe_b64decode_ascii attachment_first_message = Inr ''Hello''
   \<and> get_email_body urlsafe_b64decode_ascii untyped_part_message = Inl KeyError"
  by (simp add: html_only_single_part_def nested_plain_message_def attachment_first_message_def
      untyped_part_message_def get_email_body_def dict_get_def decode_html decode_hello)

section \<open>Properties of the vector store search\<close>

lemma hits_loop_aligned:
  assumes "distances results = Some (ds # dr)" and "metadatas results = Some (mds # mr)"
    and "i + length docs \<le> length ds" and "i + length docs \<le> length mds"
  shows "hits_loop results i docs acc =
     Inr (acc @ map (\<lambda>(doc, d, md). \<lparr>response = doc, distance = Some d, metadata = md\<rparr>)
                  (zip docs (zip (drop i ds) (drop i mds))))"
  using assms
proof (induction docs arbitrary: i acc)
  case Nil
  then show ?case by simp
next
  case (Cons doc docs)
  from Cons.prems have i: "i < length ds" "i < length mds" by simp_all
  then have d: "drop i ds = ds ! i # drop (Suc i) ds" "drop i mds = mds ! i # drop (Suc i) mds"
    by (simp_all add: Cons_nth_drop_Suc)
  have step: "hit_distance results i = Inr (Some (ds ! i))" "hit_metadata results i = Inr (mds ! i)"
    using Cons.prems(1,2) i by (simp_all add: hit_distance_def hit_metadata_def list_item_def)
  have "hits_loop results (Suc i) docs
          (acc @ [\<lparr>response = doc, distance = Some (ds ! i), metadata = mds ! i\<rparr>]) =
        Inr ((acc @ [\<lparr>response = doc, distance = Some (ds ! i), metadata = mds ! i\<rparr>]) @
             map (\<lambda>(doc, d, md). \<lparr>response = doc, distance = Some d, metadata = md\<rparr>)
               (zip docs (zip (drop (Suc i) ds) (drop (Suc i) mds))))"
    using Cons.prems by (intro Cons.IH) simp_all
  then show ?case by (simp add: step d)
qed

lemma hits_loop_whole:
  assumes "distances results = Some [ds]" and "metadatas results = Some [mds]"
    and "length ds = length docs" and "length mds = length docs"
  shows "\<exists>hits. hits_loop results 0 docs [] = Inr hits \<and> map response hits = docs
     \<and> map distance hits = map Some ds \<and> map metadata hits = mds"
proof -
  let ?hits = "map (\<lambda>(doc, d, md). \<lparr>response = doc, distance = Some d, metadata = md\<rparr>)
                  (zip docs (zip (drop 0 ds) (drop 0 mds)))"
  have run: "hits_loop results 0 docs [] = Inr ([] @ ?hits)"
    using assms by (intro hits_loop_aligned) simp_all
  have r: "map response ?hits = map fst (zip docs (zip ds mds))"
    by (simp add: case_prod_unfold comp_def)
  have d: "map distance ?hits = map Some (map fst (map snd (zip docs (zip ds mds))))"
    by (simp add: case_prod_unfold comp_def)
  have m: "map metadata ?hits = map snd (map snd (zip docs (zip ds mds)))"
    by (simp add: case_prod_unfold comp_def)
  have z: "map snd (zip docs (zip ds mds)) = zip ds mds" "map fst (zip docs (zip ds mds)) = docs"
    "map fst (zip ds mds) = ds" "map snd (zip ds mds) = mds"
    using assms(3,4) by simp_all
  show ?thesis using run r d m z by (intro exI [of _ ?hits]) (simp only: append_Nil simp_thms)
qed

lemma example_index_contract: "index_contract example_index 2"
  by (auto simp: index_contract_def example_index_def sorted_wrt_take split: if_splits)

text \<open>
  Claim C3. Over an index that keeps the contract of \<open>query\<close>,
  \<open>search_similar_responses\<close> returns a list for every query text and every \<open>k\<close>: the
  empty list when the encoder raises, when the query raises, and when the collection is
  empty; and when the query returns, at most \<open>k\<close> hits and at most as many as the
  collection holds, in the order of the index, which is ascending distance, each hit
  with the document, the distance and the metadata the index gave for it.
\<close>

theorem search_never_raises:
  assumes "index_contract vs count"
  shows "\<exists>hits lg. search_similar_responses vs query_text k = (hits, lg)
     \<and> (\<forall>e. encode vs query_text = Inl e \<longrightarrow> hits = [])
     \<and> (\<forall>emb e. encode vs query_text = Inr emb \<and> query vs emb k = Inl e \<longrightarrow> hits = [])
     \<and> (count = 0 \<longrightarrow> hits = [])
     \<and> (\<forall>emb results. encode vs query_text = Inr emb \<and> query vs emb k = Inr results \<longrightarrow>
          int (length hits) \<le> k \<and> length hits \<le> count
          \<and> (\<exists>docs ds mds.
                documents results = Some [docs] \<and> distances results = Some [ds]
                \<and> metadatas results = Some [mds] \<and> sorted ds
                \<and> map response hits = docs \<and> map distance hits = map Some ds
                \<and> map metadata hits = mds))"
proof (cases "encode vs query_text")
  case (Inl e)
  then show ?thesis by (simp add: search_similar_responses_def search_try_def)
next
  case enc: (Inr emb)
  show ?thesis
  proof (cases "query vs emb k")
    case (Inl e)
    with enc show ?thesis by (simp add: search_similar_responses_def search_try_def)
  next
    case (Inr results)
    with assms obtain docs ds mds where c:
      "documents results = Some [docs]" "distances results = Some [ds]"
      "metadatas results = Some [mds]" "length ds = length docs" "length mds = length docs"
      "int (length docs) \<le> k" "length docs \<le> count" "sorted ds"
      unfolding index_contract_def by blast
    from hits_loop_whole [OF c(2,3,4,5)] obtain hits where h:
      "hits_loop results 0 docs [] = Inr hits" "map response hits = docs"
      "map distance hits = map Some ds" "map metadata hits = mds"
      by blast
    have len: "length hits = length docs"
      using h(2) by (metis length_map)
    have "search_similar_responses vs query_text k = (hits, [])"
    proof (cases "docs = []")
      case True
      with h(2) have "hits = []" by simp
      with True enc Inr c(1) show ?thesis
        by (simp add: search_similar_responses_def search_try_def)
    next
      case False
      with enc Inr c(1) h(1) show ?thesis
        by (simp add: search_similar_responses_def search_try_def)
    qed
    with enc Inr c h len show ?thesis by auto
  qed
qed

theorem search_never_raises_witness:
  "index_contract example_index 2
   \<and> search_similar_responses example_index ''Can we meet on Tuesday?'' 1 =
       ([\<lparr>response = ''Tuesday works for me.'', distance = Some (1 / 10),
          metadata = [(''category'', ''important'')]\<rparr>], [])
   \<and> search_similar_responses example_index ''Can we meet on Tuesday?'' 3 =
       ([\<lparr>response = ''Tuesday works for me.'', distance = Some (1 / 10),
          metadata = [(''category'', ''important'')]\<rparr>,
         \<lparr>response = ''Thanks, received.'', distance = Some (2 / 5),
          metadata = [(''category'', ''general'')]\<rparr>], [])
   \<and> search_similar_responses example_index ''Can we meet on Tuesday?'' 0 =
       ([], [ErrorSearching (ExternalError ''n_results'')])"
  using search_never_raises [OF example_index_contract, of "''Can we meet on Tuesday?''" 1]
  by (simp add: example_index_contract)
     (simp add: search_similar_responses_def search_try_def example_index_def hit_distance_def
        hit_metadata_def list_item_def)

section \<open>Properties of the reply drafter and the summarizer\<close>

lemma generation_try_fails:
  assumes "get_llm_client = Inl e \<or>
           (\<exists>client. get_llm_client = Inr client \<and> generate_json client prompt sp = Inl e)"
  shows "generation_try get_llm_client prompt sp email_dict = Inl e"
  using assms by (auto simp: generation_try_def bind_err_def)

lemma draft_reply_prompt_subject:
  assumes "draft_reply_prompt vs email_dict classification summ context = Inr (prompt, lg)"
  shows "\<exists>subj. dict_get email_dict ''subject'' = Some subj"
  using assms
  by (auto simp: draft_reply_prompt_def bind_err_def dict_item_def
      split: sum.splits option.splits prod.splits)

lemma refine_reply_prompt_subject:
  assumes "refine_reply_prompt original_draft feedback email_dict = Inr prompt"
  shows "\<exists>subj. dict_get email_dict ''subject'' = Some subj"
  using assms
  by (auto simp: refine_reply_prompt_def bind_err_def dict_item_def split: sum.splits option.splits)

lemma draft_reply_prompt_example:
  "\<exists>prompt. draft_reply_prompt example_index example_email example_classification
      example_summary None = Inr (prompt, [])"
  by (simp add: draft_reply_prompt_def bind_err_def dict_item_def dict_get_def key_item_def
      example_email_def example_classification_def example_summary_def
      search_similar_responses_def search_try_def example_index_def hit_distance_def
      hit_metadata_def list_item_def extract_sender_name_def extract_sender_name_try_def
      py_strip_def py_whitespace_def)

lemma refine_reply_prompt_example:
  "\<exists>prompt. refine_reply_prompt ''Dear Ann, yes.'' ''Be warmer.'' example_email = Inr prompt"
  by (simp add: refine_reply_prompt_def bind_err_def dict_item_def dict_get_def example_email_def)

text \<open>
  Claim C5. Whenever \<open>draft_reply\<close> reaches its generation call (the prompt has been
  built) and the call fails, because \<open>get_llm_client()\<close> raises or because
  \<open>generate_json\<close> raises in the provider call or in the parse of its answer,
  \<open>draft_reply\<close> raises nothing and returns the fixed reply: the subject \<open>Re:\<close> and the
  email's subject, the body that acknowledges receipt, the tone \<open>professional\<close> and the
  confidence 0.3, which is below 0.5; the failure is logged.
\<close>

theorem draft_reply_fallback:
  assumes "draft_reply_prompt vs email_dict classification summ context = Inr (prompt, lg)"
    and "get_llm_client = Inl e \<or>
         (\<exists>client. get_llm_client = Inr client
            \<and> generate_json client prompt drafter_system_prompt = Inl e)"
  shows "\<exists>subj. dict_get email_dict ''subject'' = Some subj
     \<and> draft_reply get_llm_client vs email_dict classification summ context =
         Inr (JObj [(''subject'', JStr (''Re: '' @ subj)),
                    (''body'', JStr ''Thank you for your email. I will review and get back to you shortly.''),
                    (''tone'', JStr ''professional''),
                    (''confidence'', JNum 0.3)],
              lg @ [ErrorDrafting e])
     \<and> (0.3 :: real) < 0.5"
proof -
  from assms(1) obtain subj where s: "dict_get email_dict ''subject'' = Some subj"
    using draft_reply_prompt_subject by blast
  have "generation_try get_llm_client prompt drafter_system_prompt email_dict = Inl e"
    using assms(2) by (rule generation_try_fails)
  with assms(1) s show ?thesis
    by (simp add: draft_reply_def bind_err_def dict_item_def draft_fallback_def)
qed

theorem draft_reply_fallback_witness:
  "draft_reply (Inr failing_client) example_index example_email example_classification
     example_summary None =
   Inr (JObj [(''subject'', JStr ''Re: Renewal''),
              (''body'', JStr ''Thank you for your email. I will review and get back to you shortly.''),
              (''tone'', JStr ''professional''),
              (''confidence'', JNum 0.3)],
        [ErrorDrafting (ExternalError ''JSONDecodeError'')])"
proof -
  obtain prompt where p: "draft_reply_prompt example_index example_email example_classification
      example_summary None = Inr (prompt, [])"
    using draft_reply_prompt_example by blast
  have "Inr failing_client = Inl (ExternalError ''JSONDecodeError'') \<or>
        (\<exists>client. Inr failing_client = Inr client
           \<and> generate_json client prompt drafter_system_prompt = Inl (ExternalError ''JSONDecodeError''))"
    by (simp add: failing_client_def)
  from draft_reply_fallback [OF p this] show ?thesis
    by (simp add: example_email_def dict_get_def)
qed

text \<open>
  Claim C6, as amended. Whenever \<open>refine_reply\<close> reaches its generation call and the
  call fails, it raises nothing and returns a reply whose body is the original draft
  text it was given, character for character; the subject of that reply is \<open>Re:\<close> and
  the email's subject, its tone \<open>professional\<close> and its confidence 0.5, whatever the
  subject, tone and confidence of the reply the draft text came from.
\<close>

theorem refine_reply_fallback:
  assumes "refine_reply_prompt original_draft feedback email_dict = Inr prompt"
    and "get_llm_client = Inl e \<or>
         (\<exists>client. get_llm_client = Inr client
            \<and> generate_json client prompt drafter_system_prompt = Inl e)"
  shows "\<exists>subj. dict_get email_dict ''subject'' = Some subj
     \<and> refine_reply get_llm_client original_draft feedback email_dict =
         Inr (JObj [(''subject'', JStr (''Re: '' @ subj)),
                    (''body'', JStr original_draft),
                    (''tone'', JStr ''professional''),
                    (''confidence'', JNum 0.5)],
              [ErrorRefining e])"
proof -
  from assms(1) obtain subj where s: "dict_get email_dict ''subject'' = Some subj"
    using refine_reply_prompt_subject by blast
  have "generation_try get_llm_client prompt drafter_system_prompt email_dict = Inl e"
    using assms(2) by (rule generation_try_fails)
  with assms(1) s show ?thesis
    by (simp add: refine_reply_def bind_err_def dict_item_def refine_fallback_def)
qed

theorem refine_reply_fallback_witness:
  "refine_reply (Inr failing_client) ''Dear Ann, yes.'' ''Be warmer.'' example_email =
   Inr (JObj [(''subject'', JStr ''Re: Renewal''),
              (''body'', JStr ''Dear Ann, yes.''),
              (''tone'', JStr ''professional''),
              (''confidence'', JNum 0.5)],
        [ErrorRefining (ExternalError ''JSONDecodeError'')])"
proof -
  obtain prompt where p:
    "refine_reply_prompt ''Dear Ann, yes.'' ''Be warmer.'' example_email = Inr prompt"
    using refine_reply_prompt_example by blast
  have "Inr failing_client = Inl (ExternalError ''JSONDecodeError'') \<or>
        (\<exists>client. Inr failing_client = Inr client
           \<and> generate_json client prompt drafter_system_prompt = Inl (ExternalError ''JSONDecodeError''))"
    by (simp add: failing_client_def)
  from refine_reply_fallback [OF p this] show ?thesis
    by (simp add: example_email_def dict_get_def)
qed

text \<open>
  As stated, claim C6 fails: the reply that comes back is not the original draft. The
  draft here is the reply \<open>draft_reply\<close> itself falls back to, with confidence 0.3;
  \<open>refine_reply\<close> is given its body, as the orchestrator does, and returns a reply with
  confidence 0.5. A generated draft with another subject and tone comes back with both
  replaced.
\<close>

theorem refine_reply_claim_counterexample:
  "draft_fallback ''Renewal'' =
     JObj [(''subject'', JStr ''Re: Renewal''),
           (''body'', JStr ''Thank you for your email. I will review and get back to you shortly.''),
           (''tone'', JStr ''professional''),
           (''confidence'', JNum 0.3)]
   \<and> refine_reply (Inr failing_client)
       ''Thank you for your email. I will review and get back to you shortly.''
       ''Be warmer.'' example_email =
     Inr (JObj [(''subject'', JStr ''Re: Renewal''),
                (''body'', JStr ''Thank you for your email. I will review and get back to you shortly.''),
                (''tone'', JStr ''professional''),
                (''confidence'', JNum 0.5)],
          [ErrorRefining (ExternalError ''JSONDecodeError'')])
   \<and> JObj [(''subject'', JStr ''Re: Renewal''),
            (''body'', JStr ''Thank you for your email. I will review and get back to you shortly.''),
            (''tone'', JStr ''professional''),
            (''confidence'', JNum 0.5)] \<noteq> draft_fallback ''Renewal''
   \<and> refine_reply (Inr failing_client) ''Hi Ann, all set!'' ''Be warmer.'' example_email =
     Inr (JObj [(''subject'', JStr ''Re: Renewal''),
                (''body'', JStr ''Hi Ann, all set!''),
                (''tone'', JStr ''professional''),
                (''confidence'', JNum 0.5)],
          [ErrorRefining (ExternalError ''JSONDecodeError'')])
   \<and> JObj [(''subject'', JStr ''Re: Renewal''),
            (''body'', JStr ''Hi Ann, all set!''),
            (''tone'', JStr ''professional''),
            (''confidence'', JNum 0.5)] \<noteq> generated_draft"
  by (simp add: draft_fallback_def refine_reply_def refine_reply_prompt_def refine_fallback_def
      generation_try_def bind_err_def dict_item_def dict_get_def example_email_def
      failing_client_def generated_draft_def)

lemma agent_module_import_fails:
  "agent_module_import llm_module_body =
     Inl (case llm_module_body of Inl e \<Rightarrow> e | Inr u \<Rightarrow> ImportError)"
  by (simp add: agent_module_import_def bind_err_def import_from_def llm_client_module_names_def
      split: sum.split)

lemma draft_reply_unbound:
  assumes "draft_reply (Inl e) vs email_dict classification summ context = Inr (r, lg)"
  shows "\<exists>subj. r = draft_fallback subj"
  using assms
  by (auto simp: draft_reply_def generation_try_def bind_err_def split: sum.splits prod.splits)

lemma refine_reply_unbound:
  assumes "refine_reply (Inl e) original_draft feedback email_dict = Inr (r, lg)"
  shows "\<exists>subj. r = refine_fallback subj original_draft"
  using assms
  by (auto simp: refine_reply_def generation_try_def bind_err_def split: sum.splits prod.splits)

lemma summarize_email_unbound:
  assumes "summarize_email (Inl e) email_dict classification = Inr (r, lg)"
  shows "r = summary_fallback email_dict"
  using assms
  by (auto simp: summarize_email_def generation_try_def bind_err_def split: sum.splits prod.splits)

text \<open>
  Claim C10. \<open>core/llm_client.py\<close> binds no name \<open>get_llm_client\<close> (it binds
  \<open>llm_client\<close>, which the classifier imports). So the import of the reply drafter and
  of the summarizer raises, \<open>ImportError\<close> unless the body of the client module raised
  before, and no run of \<open>draft_reply\<close>, \<open>refine_reply\<close> or \<open>summarize_email\<close> through
  the program returns a result, generated or not. Taken on their own with the name
  unbound when it is called, the three functions return nothing but their fallback
  values.
\<close>

theorem generation_branch_unreachable:
  "''get_llm_client'' \<notin> set llm_client_module_names
   \<and> import_from llm_client_module_names ''llm_client'' = Inr ()
   \<and> run_draft_reply llm_module_body get_llm_client vs email_dict classification summ ctx =
       Inl (case llm_module_body of Inl e \<Rightarrow> e | Inr u \<Rightarrow> ImportError)
   \<and> run_refine_reply llm_module_body get_llm_client original_draft feedback email_dict =
       Inl (case llm_module_body of Inl e \<Rightarrow> e | Inr u \<Rightarrow> ImportError)
   \<and> run_summarize_email llm_module_body get_llm_client email_dict classification =
       Inl (case llm_module_body of Inl e \<Rightarrow> e | Inr u \<Rightarrow> ImportError)
   \<and> (\<forall>r lg. draft_reply (Inl err) vs email_dict classification summ ctx = Inr (r, lg)
         \<longrightarrow> (\<exists>subj. r = draft_fallback subj))
   \<and> (\<forall>r lg. refine_reply (Inl err) original_draft feedback email_dict = Inr (r, lg)
         \<longrightarrow> (\<exists>subj. r = refine_fallback subj original_draft))
   \<and> (\<forall>r lg. summarize_email (Inl err) email_dict classification = Inr (r, lg)
         \<longrightarrow> r = summary_fallback email_dict)"
proof (intro conjI allI impI)
  show "''get_llm_client'' \<notin> set llm_client_module_names"
    by (simp add: llm_client_module_names_def)
  show "import_from llm_client_module_names ''llm_client'' = Inr ()"
    by (simp add: import_from_def llm_client_module_names_def)
  show "run_draft_reply llm_module_body get_llm_client vs email_dict classification summ ctx =
       Inl (case llm_module_body of Inl e \<Rightarrow> e | Inr u \<Rightarrow> ImportError)"
    by (simp add: run_draft_reply_def agent_module_import_fails bind_err_def)
  show "run_refine_reply llm_module_body get_llm_client original_draft feedback email_dict =
       Inl (case llm_module_body of Inl e \<Rightarrow> e | Inr u \<Rightarrow> ImportError)"
    by (simp add: run_refine_reply_def agent_module_import_fails bind_err_def)
  show "run_summarize_email llm_module_body get_llm_client email_dict classification =
       Inl (case llm_module_body of Inl e \<Rightarrow> e | Inr u \<Rightarrow> ImportError)"
    by (simp add: run_summarize_email_def agent_module_import_fails bind_err_def)
next
  fix r lg
  assume "draft_reply (Inl err) vs email_dict classification summ ctx = Inr (r, lg)"
  then show "\<exists>subj. r = draft_fallback subj" by (rule draft_reply_unbound)
next
  fix r lg
  assume "refine_reply (Inl err) original_draft feedback email_dict = Inr (r, lg)"
  then show "\<exists>subj. r = refine_fallback subj original_draft" by (rule refine_reply_unbound)
next
  fix r lg
  assume "summarize_email (Inl err) email_dict classification = Inr (r, lg)"
  then show "r = summary_fallback email_dict" by (rule summarize_email_unbound)
qed

theorem generation_branch_unreachable_witness:
  "run_draft_reply (Inr ()) (Inl NameError) example_index example_email example_classification
     example_summary None = Inl ImportError
   \<and> run_refine_reply (Inr ()) (Inl NameError) ''Dear Ann, yes.'' ''Be warmer.'' example_email =
       Inl ImportError
   \<and> run_summarize_email (Inr ()) (Inl NameError) example_email example_classification =
       Inl ImportError
   \<and> summarize_email (Inl NameError) example_email example_classification =
       Inr (summary_fallback example_email, [ErrorSummarizing NameError])
   \<and> summary_fallback example_email =
       JObj [(''summary'', JStr ''Unable to generate summary''), (''key_points'', JList []),
             (''action_items'', JList []), (''sentiment'', JStr ''neutral'')]"
  using generation_branch_unreachable [where llm_module_body = "Inr ()"
      and get_llm_client = "Inl NameError" and vs = example_index and email_dict = example_email
      and classification = example_classification and summ = example_summary
      and ctx = None and original_draft = "''Dear Ann, yes.''" and feedback = "''Be warmer.''"
      and err = NameError]
  by (simp add: summarize_email_def summarize_email_prompt_def generation_try_def bind_err_def
      dict_item_def dict_get_def dict_get_default_def summary_fallback_def example_email_def
      example_classification_def)

end
